theory Spec2Isabelle
  imports Complex_Main "HOL-Library.AList" "HOL-Library.Char_ord" "HOL-Library.List_Lexorder"
    "HOL-Library.Product_Lexorder"
begin

section \<open>Data model of report7.py\<close>

text \<open>
  The script works on pandas data frames.  A frame is modelled column-major, as pandas
  stores it: a row index of a given length and an ordered list of named columns.  Numbers
  are idealised as rationals (pandas holds them as 64-bit floats), a duration is a rational
  number of seconds, and every kind of missing value (\<open>pd.NA\<close>, \<open>NaN\<close>, \<open>NaT\<close>) is the
  one cell \<open>NA\<close>.
\<close>

datatype error = KeyError string | ValueError string | AttributeError string | TypeError string

datatype datetime = DateTime (dt_year: int) (dt_month: nat) (dt_day: nat)
  (dt_hour: nat) (dt_minute: nat) (dt_second: nat)

datatype cell = NA | Num rat | Str string | Stamp datetime | Delta rat

datatype series = Plain (vals: "cell list") | Categorical (categories: "string list") (vals: "cell list")

record frame =
  nrows :: nat
  cols :: "(string \<times> series) list"

definition ebind :: "error + 'a \<Rightarrow> ('a \<Rightarrow> error + 'b) \<Rightarrow> error + 'b" where
  "ebind m f = (case m of Inl e \<Rightarrow> Inl e | Inr x \<Rightarrow> f x)"

definition columns :: "frame \<Rightarrow> string list" where
  "columns df = map fst (cols df)"

text \<open>\<open>df[name]\<close>: the column of that name, \<open>KeyError\<close> when there is none.\<close>

definition getcol :: "frame \<Rightarrow> string \<Rightarrow> error + series" where
  "getcol df name = (case map_of (cols df) name of None \<Rightarrow> Inl (KeyError name) | Some s \<Rightarrow> Inr s)"

text \<open>\<open>df[name] = s\<close>: an existing column is replaced where it stands, a new one is appended.\<close>

definition setcol :: "frame \<Rightarrow> string \<Rightarrow> series \<Rightarrow> frame" where
  "setcol df name s =
     (if name \<in> set (columns df)
      then df\<lparr>cols := map (\<lambda>(n, t). if n = name then (n, s) else (n, t)) (cols df)\<rparr>
      else df\<lparr>cols := cols df @ [(name, s)]\<rparr>)"

text \<open>\<open>df[[n1, n2, ...]]\<close>: the named columns in the order asked for, on the same row index;
  \<open>KeyError\<close> at the first name the frame does not have.\<close>

definition select :: "frame \<Rightarrow> string list \<Rightarrow> error + frame" where
  "select df ns =
     (case [n \<leftarrow> ns. n \<notin> set (columns df)] of
        [] \<Rightarrow> Inr (df\<lparr>cols := concat (map (\<lambda>n. [(m, s) \<leftarrow> cols df. m = n]) ns)\<rparr>)
      | m # _ \<Rightarrow> Inl (KeyError m))"

subsection \<open>Required columns\<close>

definition required_cols :: "string list" where
  "required_cols =
     [''Timestamp'', ''groundSpeed'', ''airSpeed'', ''altitudeRelative'', ''altitudeAMSL'',
      ''flightDistance'', ''flightTime'', ''distanceToHome'',
      ''battery0.voltage'', ''battery0.current'', ''battery0.percentRemaining'',
      ''battery0.instantPower'',
      ''gps.lat'', ''gps.lon'',
      ''clock.currentDate'', ''clock.currentTime'']"

subsection \<open>Schema reconciliation (lines 39 to 45)\<close>

definition available_cols :: "frame \<Rightarrow> string list" where
  "available_cols df = [col \<leftarrow> required_cols. col \<in> set (columns df)]"

definition na_column :: "frame \<Rightarrow> series" where
  "na_column df = Plain (replicate (nrows df) NA)"

definition add_missing_step :: "string \<Rightarrow> frame \<Rightarrow> frame" where
  "add_missing_step col df = (if col \<notin> set (columns df) then setcol df col (na_column df) else df)"

definition add_missing :: "frame \<Rightarrow> frame" where
  "add_missing df = fold add_missing_step required_cols df"

definition reconcile :: "frame \<Rightarrow> error + frame" where
  "reconcile df = ebind (select df (available_cols df)) (\<lambda>d. Inr (add_missing d))"


subsection \<open>Text of numbers\<close>

definition digit_char :: "nat \<Rightarrow> char" where
  "digit_char d = char_of (48 + d)"

text \<open>\<open>str(n)\<close> of a natural number: its decimal digits.\<close>

function str_nat :: "nat \<Rightarrow> string" where
  "str_nat n = (if n < 10 then [digit_char n] else str_nat (n div 10) @ [digit_char (n mod 10)])"
  by pat_completeness auto
termination
  by (relation "measure id") auto

declare str_nat.simps [simp del]

definition str_int :: "int \<Rightarrow> string" where
  "str_int i = (if i < 0 then CHR ''-'' # str_nat (nat (- i)) else str_nat (nat i))"

text \<open>Line 48: \<open>f"flight_{i+1}"\<close>, with \<open>i\<close> the position of the file, from 0.\<close>

definition flight_id_of :: "nat \<Rightarrow> string" where
  "flight_id_of i = ''flight_'' @ str_nat (i + 1)"

subsection \<open>Coercion of columns\<close>

text \<open>
  What pandas makes of the text of a cell is the library's business: the four parsers are
  parameters of the model.  \<open>to_datetime\<close> without a format looks at the whole column to
  guess the format, so its parser sees the column too.  All four conversions run with
  \<open>errors="coerce"\<close>: a value that does not parse becomes missing, and a missing value
  stays missing.
\<close>

record parsers =
  p_datetime :: "cell list \<Rightarrow> cell \<Rightarrow> datetime option"
  p_time :: "cell \<Rightarrow> datetime option"
  p_numeric :: "cell \<Rightarrow> rat option"
  p_timedelta :: "cell \<Rightarrow> rat option"

definition stamp_or_na :: "datetime option \<Rightarrow> cell" where
  "stamp_or_na r = (case r of None \<Rightarrow> NA | Some d \<Rightarrow> Stamp d)"

definition datetime_cell :: "parsers \<Rightarrow> cell list \<Rightarrow> cell \<Rightarrow> cell" where
  "datetime_cell P col c =
     (case c of NA \<Rightarrow> NA | Stamp d \<Rightarrow> Stamp d | _ \<Rightarrow> stamp_or_na (p_datetime P col c))"

definition time_cell :: "parsers \<Rightarrow> cell \<Rightarrow> cell" where
  "time_cell P c = (case c of NA \<Rightarrow> NA | _ \<Rightarrow> stamp_or_na (p_time P c))"

definition numeric_cell :: "parsers \<Rightarrow> cell \<Rightarrow> cell" where
  "numeric_cell P c =
     (case c of NA \<Rightarrow> NA | Num x \<Rightarrow> Num x
              | _ \<Rightarrow> (case p_numeric P c of None \<Rightarrow> NA | Some x \<Rightarrow> Num x))"

definition timedelta_cell :: "parsers \<Rightarrow> cell \<Rightarrow> cell" where
  "timedelta_cell P c =
     (case c of NA \<Rightarrow> NA | Delta x \<Rightarrow> Delta x
              | _ \<Rightarrow> (case p_timedelta P c of None \<Rightarrow> NA | Some x \<Rightarrow> Delta x))"

text \<open>\<open>pd.to_datetime(s, errors="coerce")\<close>, \<open>pd.to_datetime(s, format="%H:%M:%S",
  errors="coerce")\<close>, \<open>pd.to_numeric(s, errors="coerce")\<close> and
  \<open>pd.to_timedelta(s, errors="coerce")\<close>.\<close>

definition to_datetime :: "parsers \<Rightarrow> series \<Rightarrow> series" where
  "to_datetime P s = Plain (map (datetime_cell P (vals s)) (vals s))"

definition to_time :: "parsers \<Rightarrow> series \<Rightarrow> series" where
  "to_time P s = Plain (map (time_cell P) (vals s))"

definition to_numeric :: "parsers \<Rightarrow> series \<Rightarrow> series" where
  "to_numeric P s = Plain (map (numeric_cell P) (vals s))"

definition to_timedelta :: "parsers \<Rightarrow> series \<Rightarrow> series" where
  "to_timedelta P s = Plain (map (timedelta_cell P) (vals s))"

subsection \<open>Reading a file (line 36)\<close>

text \<open>
  \<open>pd.read_csv(file, parse_dates=["Timestamp"], low_memory=False)\<close>.  The file is given
  as the table of its cells under its header, numbers and text as the reader types them.
  A file without a \<open>Timestamp\<close> column is refused: \<open>read_csv\<close> raises \<open>ValueError\<close>
  (missing column provided to \<open>parse_dates\<close>).  The \<open>Timestamp\<close> column becomes a column
  of timestamps when each of its cells parses, and stays as it is otherwise.
\<close>

definition read_csv :: "parsers \<Rightarrow> frame \<Rightarrow> error + frame" where
  "read_csv P file =
     (case getcol file ''Timestamp'' of
        Inl e \<Rightarrow> Inl (ValueError ''Missing column provided to parse_dates: Timestamp'')
      | Inr s \<Rightarrow>
          (let parsed = map (datetime_cell P (vals s)) (vals s) in
           if list_all (\<lambda>(c, p). if c = NA then True else p \<noteq> NA) (zip (vals s) parsed)
           then Inr (setcol file ''Timestamp'' (Plain parsed))
           else Inr file))"

subsection \<open>Row filter\<close>

definition notna :: "series \<Rightarrow> bool list" where
  "notna s = map (\<lambda>c. c \<noteq> NA) (vals s)"

definition mask_list :: "bool list \<Rightarrow> 'a list \<Rightarrow> 'a list" where
  "mask_list m xs = map snd (filter fst (zip m xs))"

fun map_series :: "(cell list \<Rightarrow> cell list) \<Rightarrow> series \<Rightarrow> series" where
  "map_series f (Plain xs) = Plain (f xs)"
| "map_series f (Categorical cs xs) = Categorical cs (f xs)"

text \<open>\<open>df[mask].reset_index(drop=True)\<close>: the rows whose mask is true, in their order,
  renumbered from 0.\<close>

definition filter_rows :: "frame \<Rightarrow> bool list \<Rightarrow> frame" where
  "filter_rows df m =
     df\<lparr>nrows := length (filter id (take (nrows df) m)),
        cols := map (\<lambda>(n, s). (n, map_series (mask_list m) s)) (cols df)\<rparr>"

subsection \<open>Normalisation of one file (lines 39 to 62)\<close>

definition add_derived :: "parsers \<Rightarrow> string \<Rightarrow> frame \<Rightarrow> error + frame" where
  "add_derived P flight_id df0 =
     (let df1 = setcol df0 ''flight_id'' (Plain (replicate (nrows df0) (Str flight_id))) in
      ebind (getcol df1 ''clock.currentDate'') (\<lambda>cd.
      let df2 = setcol df1 ''date'' (to_datetime P cd) in
      ebind (getcol df2 ''clock.currentTime'') (\<lambda>ct.
      Inr (setcol df2 ''time'' (to_time P ct)))))"

text \<open>Line 54: \<open>df = df[df["date"].notna()].reset_index(drop=True)\<close>.\<close>

definition drop_invalid :: "frame \<Rightarrow> error + frame" where
  "drop_invalid df = ebind (getcol df ''date'') (\<lambda>date. Inr (filter_rows df (notna date)))"

definition numeric_cols :: "string list" where
  "numeric_cols = [''flightDistance'', ''altitudeRelative'', ''groundSpeed'', ''airSpeed'',
                   ''battery0.percentRemaining'', ''battery0.instantPower'']"

fun convert_numeric :: "parsers \<Rightarrow> string list \<Rightarrow> frame \<Rightarrow> error + frame" where
  "convert_numeric P [] df = Inr df"
| "convert_numeric P (col # rest) df =
     ebind (getcol df col) (\<lambda>s. convert_numeric P rest (setcol df col (to_numeric P s)))"

definition convert_types :: "parsers \<Rightarrow> frame \<Rightarrow> error + frame" where
  "convert_types P df =
     ebind (convert_numeric P numeric_cols df) (\<lambda>df1.
     ebind (getcol df1 ''flightTime'') (\<lambda>ft.
     Inr (setcol df1 ''flightTime'' (to_timedelta P ft))))"

definition normalize :: "parsers \<Rightarrow> string \<Rightarrow> frame \<Rightarrow> error + frame" where
  "normalize P flight_id df =
     ebind (reconcile df) (\<lambda>df1.
     ebind (add_derived P flight_id df1) (\<lambda>df2.
     ebind (drop_invalid df2) (\<lambda>df3.
     convert_types P df3)))"

subsection \<open>The rows of a file that survive\<close>

text \<open>
  The words of the claims about one file: the cells of a column of the file (all missing
  when the file has no such column), the parsed date of each row, the mask of the rows whose
  date parsed, and the cells of a column in those rows.
\<close>

definition file_col :: "frame \<Rightarrow> string \<Rightarrow> cell list" where
  "file_col df c = (case getcol df c of Inr s \<Rightarrow> vals s | Inl e \<Rightarrow> replicate (nrows df) NA)"

definition parsed_dates :: "parsers \<Rightarrow> frame \<Rightarrow> cell list" where
  "parsed_dates P df = vals (to_datetime P (Plain (file_col df ''clock.currentDate'')))"

definition date_mask :: "parsers \<Rightarrow> frame \<Rightarrow> bool list" where
  "date_mask P df = map (\<lambda>c. c \<noteq> NA) (parsed_dates P df)"

definition kept :: "parsers \<Rightarrow> frame \<Rightarrow> string \<Rightarrow> cell list" where
  "kept P df c = mask_list (date_mask P df) (file_col df c)"

text \<open>What lines 57 to 62 do to the cells of a required column.\<close>

definition col_conversion :: "parsers \<Rightarrow> string \<Rightarrow> cell \<Rightarrow> cell" where
  "col_conversion P c =
     (if c \<in> set numeric_cols then numeric_cell P
      else if c = ''flightTime'' then timedelta_cell P else id)"

subsection \<open>Reductions of a column\<close>

text \<open>\<open>max\<close>, \<open>min\<close> and \<open>mean\<close> of a column skip the missing cells and are missing
  when nothing is left.\<close>

definition dropna :: "cell list \<Rightarrow> cell list" where
  "dropna xs = [x \<leftarrow> xs. x \<noteq> NA]"

fun cell_max :: "cell \<Rightarrow> cell \<Rightarrow> cell" where
  "cell_max (Num a) (Num b) = Num (max a b)"
| "cell_max (Delta a) (Delta b) = Delta (max a b)"
| "cell_max a b = b"

fun cell_min :: "cell \<Rightarrow> cell \<Rightarrow> cell" where
  "cell_min (Num a) (Num b) = Num (min a b)"
| "cell_min (Delta a) (Delta b) = Delta (min a b)"
| "cell_min a b = b"

fun cell_add :: "cell \<Rightarrow> cell \<Rightarrow> cell" where
  "cell_add (Num a) (Num b) = Num (a + b)"
| "cell_add (Delta a) (Delta b) = Delta (a + b)"
| "cell_add a b = b"

fun cell_div :: "cell \<Rightarrow> nat \<Rightarrow> cell" where
  "cell_div (Num a) n = Num (a / of_nat n)"
| "cell_div (Delta a) n = Delta (a / of_nat n)"
| "cell_div a n = a"

definition series_max :: "series \<Rightarrow> cell" where
  "series_max s = (case dropna (vals s) of [] \<Rightarrow> NA | x # xs \<Rightarrow> fold cell_max xs x)"

definition series_min :: "series \<Rightarrow> cell" where
  "series_min s = (case dropna (vals s) of [] \<Rightarrow> NA | x # xs \<Rightarrow> fold cell_min xs x)"

definition series_mean :: "series \<Rightarrow> cell" where
  "series_mean s =
     (case dropna (vals s) of [] \<Rightarrow> NA | x # xs \<Rightarrow> cell_div (fold cell_add xs x) (Suc (length xs)))"

text \<open>\<open>round(x, 2)\<close> of a numpy float: \<open>x * 100\<close> to the nearest integer, a tie to the
  even one, over 100; \<open>NaN\<close> stays \<open>NaN\<close>.\<close>

definition rint :: "rat \<Rightarrow> int" where
  "rint x = (let f = \<lfloor>x\<rfloor>; d = x - of_int f in
             if d < 1 / 2 then f else if 1 / 2 < d then f + 1 else if even f then f else f + 1)"

definition round2 :: "rat \<Rightarrow> rat" where
  "round2 x = of_int (rint (x * 100)) / 100"

fun py_round2 :: "cell \<Rightarrow> cell" where
  "py_round2 (Num x) = Num (round2 x)"
| "py_round2 c = c"

subsection \<open>Per-flight summary (lines 65 to 80)\<close>

definition summary :: "string \<Rightarrow> frame \<Rightarrow> error + (string \<times> cell) list" where
  "summary flight_id df =
     ebind (getcol df ''flightTime'') (\<lambda>flightTime.
     ebind (getcol df ''flightDistance'') (\<lambda>flightDistance.
     ebind (getcol df ''altitudeRelative'') (\<lambda>altitudeRelative.
     ebind (getcol df ''groundSpeed'') (\<lambda>groundSpeed.
     ebind (getcol df ''airSpeed'') (\<lambda>airSpeed.
     ebind (getcol df ''battery0.percentRemaining'') (\<lambda>percentRemaining.
     ebind (getcol df ''battery0.instantPower'') (\<lambda>instantPower.
     Inr [(''flight_id'', Str flight_id),
          (''flight_time'', series_max flightTime),
          (''flight_distance'', series_max flightDistance),
          (''max_altitude'', series_max altitudeRelative),
          (''max_ground_speed'', series_max groundSpeed),
          (''max_air_speed'', series_max airSpeed),
          (''min_battery'', series_min percentRemaining),
          (''avg_power'', py_round2 (series_mean instantPower)),
          (''avg_altitude'', py_round2 (series_mean altitudeRelative)),
          (''avg_flight_time'', series_mean flightTime),
          (''avg_flight_distance'', py_round2 (series_mean flightDistance)),
          (''avg_ground_speed'', py_round2 (series_mean groundSpeed)),
          (''avg_air_speed'', py_round2 (series_mean airSpeed)),
          (''avg_battery_remaining'', py_round2 (series_mean percentRemaining))])))))))"

subsection \<open>The load loop (lines 35 to 92)\<close>

record loaded =
  flight_summaries :: "(string \<times> cell) list list"
  gps_data :: "frame list"
  all_dfs :: "frame list"

definition process_file :: "parsers \<Rightarrow> nat \<Rightarrow> frame \<Rightarrow> error + (string \<times> cell) list \<times> frame \<times> frame" where
  "process_file P i file =
     ebind (normalize P (flight_id_of i) file) (\<lambda>df.
     ebind (summary (flight_id_of i) df) (\<lambda>sm.
     ebind (select df [''gps.lat'', ''gps.lon'', ''flight_id'']) (\<lambda>gps.
     Inr (sm, gps, df))))"

text \<open>Lines 36 to 87 for the file at position \<open>i\<close>: read it, then process the frame.\<close>

definition load_file :: "parsers \<Rightarrow> nat \<Rightarrow> frame \<Rightarrow> error + (string \<times> cell) list \<times> frame \<times> frame" where
  "load_file P i file = ebind (read_csv P file) (process_file P i)"

text \<open>The files are the frames \<open>read_csv\<close> returned, in the order of \<open>all_files\<close>; a file
  that \<open>read_csv\<close> rejects stops the script before the loop body, and is not an input here.\<close>

fun load_loop :: "parsers \<Rightarrow> nat \<Rightarrow> frame list \<Rightarrow> loaded \<Rightarrow> error + loaded" where
  "load_loop P i [] st = Inr st"
| "load_loop P i (file # files) st =
     ebind (process_file P i file) (\<lambda>(sm, gps, df).
       load_loop P (Suc i) files
         (st\<lparr>flight_summaries := flight_summaries st @ [sm],
             gps_data := gps_data st @ [gps],
             all_dfs := all_dfs st @ [df]\<rparr>))"

text \<open>pandas \<open>unique\<close>: the distinct values in the order of their first appearance.\<close>

definition unique :: "'a list \<Rightarrow> 'a list" where
  "unique xs = rev (remdups (rev xs))"

definition empty_frame :: frame where
  "empty_frame = \<lparr>nrows = 0, cols = []\<rparr>"

text \<open>\<open>pd.DataFrame(records)\<close> of a list of dicts: one row per dict, one column per key,
  in the order the keys first appear; no column at all for the empty list.\<close>

definition frame_of_records :: "(string \<times> cell) list list \<Rightarrow> frame" where
  "frame_of_records recs =
     \<lparr>nrows = length recs,
      cols = map (\<lambda>k. (k, Plain (map (\<lambda>r. case map_of r k of None \<Rightarrow> NA | Some v \<Rightarrow> v) recs)))
                 (unique (concat (map (map fst) recs)))\<rparr>"

text \<open>\<open>pd.concat(frames, ignore_index=True)\<close>: the rows of the frames one after the other,
  over the union of their columns, a column a frame lacks being missing in its rows.\<close>

definition concat_frames :: "frame list \<Rightarrow> frame" where
  "concat_frames dfs =
     \<lparr>nrows = sum_list (map nrows dfs),
      cols = map (\<lambda>n. (n, Plain (concat (map (\<lambda>df. case map_of (cols df) n of
                                                   None \<Rightarrow> replicate (nrows df) NA
                                                 | Some s \<Rightarrow> vals s) dfs))))
                 (unique (concat (map columns dfs)))\<rparr>"

record tables =
  flight_summary :: frame
  gps_all :: frame
  df_all :: frame

definition load_all :: "parsers \<Rightarrow> frame list \<Rightarrow> error + tables" where
  "load_all P all_files =
     ebind (load_loop P 0 all_files \<lparr>flight_summaries = [], gps_data = [], all_dfs = []\<rparr>) (\<lambda>st.
     Inr \<lparr>flight_summary = frame_of_records (flight_summaries st),
          gps_all = (if gps_data st \<noteq> [] then concat_frames (gps_data st) else empty_frame),
          df_all = (if all_dfs st \<noteq> [] then concat_frames (all_dfs st) else empty_frame)\<rparr>)"

subsection \<open>KPI calculations (lines 110 to 116)\<close>

definition nunique :: "series \<Rightarrow> nat" where
  "nunique s = length (unique (dropna (vals s)))"

text \<open>\<open>sum(skipna=True)\<close> of the \<open>flight_time\<close> column.  A column with a duration in it is
  a column of durations, and its sum skips the missing ones.  A column with rows and no
  duration at all holds \<open>NaT\<close> only, which pandas types as timestamps: their sum raises
  \<open>TypeError\<close>.  A column without rows sums to zero.\<close>

definition series_sum_delta :: "series \<Rightarrow> error + cell" where
  "series_sum_delta s =
     (let ds = concat (map (\<lambda>c. case c of Delta x \<Rightarrow> [x] | _ \<Rightarrow> []) (vals s)) in
      if vals s = [] then Inr (Delta 0)
      else if ds = [] then Inl (TypeError ''datetime64 type does not support sum operations'')
      else Inr (Delta (sum_list ds)))"

definition series_sum_num :: "series \<Rightarrow> cell" where
  "series_sum_num s = Num (sum_list (concat (map (\<lambda>c. case c of Num x \<Rightarrow> [x] | _ \<Rightarrow> []) (vals s))))"

definition total_flights :: "frame \<Rightarrow> error + nat" where
  "total_flights fs = ebind (getcol fs ''flight_id'') (\<lambda>s. Inr (nunique s))"

record kpis =
  kpi_total_flights :: nat
  kpi_total_flight_time :: cell
  kpi_total_flight_distance :: cell
  kpi_max_altitude :: cell
  kpi_max_ground_speed :: cell
  kpi_max_air_speed :: cell
  kpi_min_battery :: cell

definition kpi_calculations :: "parsers \<Rightarrow> frame \<Rightarrow> error + kpis" where
  "kpi_calculations P fs =
     ebind (total_flights fs) (\<lambda>tf.
     ebind (getcol fs ''flight_time'') (\<lambda>ft.
     ebind (series_sum_delta ft) (\<lambda>total_flight_time.
     ebind (getcol fs ''flight_distance'') (\<lambda>fd.
     ebind (getcol fs ''max_altitude'') (\<lambda>alt.
     ebind (getcol fs ''max_ground_speed'') (\<lambda>gs.
     ebind (getcol fs ''max_air_speed'') (\<lambda>as.
     ebind (getcol fs ''min_battery'') (\<lambda>bat.
     Inr \<lparr>kpi_total_flights = tf,
          kpi_total_flight_time = total_flight_time,
          kpi_total_flight_distance = series_sum_num (to_numeric P fd),
          kpi_max_altitude = series_max (to_numeric P alt),
          kpi_max_ground_speed = series_max (to_numeric P gs),
          kpi_max_air_speed = series_max (to_numeric P as),
          kpi_min_battery = series_min (to_numeric P bat)\<rparr>))))))))"


subsection \<open>Calendar and clock labels\<close>

definition month_order :: "string list" where
  "month_order = [''Jan'', ''Feb'', ''Mar'', ''Apr'', ''May'', ''Jun'',
                  ''Jul'', ''Aug'', ''Sep'', ''Oct'', ''Nov'', ''Dec'']"

definition weekday_order :: "string list" where
  "weekday_order = [''Monday'', ''Tuesday'', ''Wednesday'', ''Thursday'',
                    ''Friday'', ''Saturday'', ''Sunday'']"

definition digit_val :: "char \<Rightarrow> nat option" where
  "digit_val c = (let k = (of_char c :: nat) in if 48 \<le> k \<and> k \<le> 57 then Some (k - 48) else None)"

text \<open>\<open>datetime.strptime(s, "%H")\<close>: the hour is the first of \<open>2[0-3]\<close>, \<open>[0-1]\d\<close>, \<open>\d\<close>
  that matches at the start of \<open>s\<close>, and nothing may follow it.\<close>

definition strptime_H :: "string \<Rightarrow> error + nat" where
  "strptime_H s =
     (case s of
        [] \<Rightarrow> Inl (ValueError ''time data does not match format %H'')
      | [a] \<Rightarrow> (case digit_val a of
                  Some x \<Rightarrow> Inr x
                | None \<Rightarrow> Inl (ValueError ''time data does not match format %H''))
      | a # b # rest \<Rightarrow>
          (case digit_val a of
             None \<Rightarrow> Inl (ValueError ''time data does not match format %H'')
           | Some x \<Rightarrow>
               (case digit_val b of
                  None \<Rightarrow> Inl (ValueError ''unconverted data remains'')
                | Some y \<Rightarrow>
                    if 10 * x + y \<le> 23 \<and> rest = [] then Inr (10 * x + y)
                    else Inl (ValueError ''unconverted data remains''))))"

definition pad2 :: "nat \<Rightarrow> string" where
  "pad2 n = (if n < 10 then CHR ''0'' # str_nat n else str_nat n)"

text \<open>\<open>strftime("%I %p")\<close> of an hour of the day: the hour on the 12-hour clock in two
  digits, then AM or PM.\<close>

definition strftime_I_p :: "nat \<Rightarrow> string" where
  "strftime_I_p h = pad2 (if h mod 12 = 0 then 12 else h mod 12) @ '' '' @ (if h < 12 then ''AM'' else ''PM'')"

definition hour_label :: "string \<Rightarrow> error + string" where
  "hour_label s = ebind (strptime_H s) (\<lambda>h. Inr (strftime_I_p h))"

fun emap :: "('a \<Rightarrow> error + 'b) \<Rightarrow> 'a list \<Rightarrow> error + 'b list" where
  "emap f [] = Inr []"
| "emap f (x # xs) = ebind (f x) (\<lambda>y. ebind (emap f xs) (\<lambda>ys. Inr (y # ys)))"

text \<open>Line 161.\<close>

definition hour_order :: "error + string list" where
  "hour_order = emap (\<lambda>h. hour_label (str_nat h)) [0..<24]"

text \<open>Days from 1970-01-01 to a date of the proleptic Gregorian calendar, and the day of
  the week from it (Monday is 0), as \<open>day_name\<close> needs it.\<close>

definition days_from_civil :: "int \<Rightarrow> nat \<Rightarrow> nat \<Rightarrow> int" where
  "days_from_civil y m d =
     (let y1 = (if m \<le> 2 then y - 1 else y);
          era = y1 div 400;
          yoe = y1 - era * 400;
          mp = (if m \<le> 2 then int m + 9 else int m - 3);
          doy = (153 * mp + 2) div 5 + int d - 1;
          doe = yoe * 365 + yoe div 4 - yoe div 100 + doy
      in era * 146097 + doe - 719468)"

definition weekday_index :: "datetime \<Rightarrow> nat" where
  "weekday_index t = nat ((days_from_civil (dt_year t) (dt_month t) (dt_day t) + 3) mod 7)"

definition nth_or :: "'a \<Rightarrow> 'a list \<Rightarrow> nat \<Rightarrow> 'a" where
  "nth_or d xs i = (if i < length xs then xs ! i else d)"

text \<open>\<open>strftime("%b")\<close> and \<open>day_name()\<close>; a timestamp of pandas has a month from 1 to 12.\<close>

definition month_abbr :: "datetime \<Rightarrow> string" where
  "month_abbr t = (if 1 \<le> dt_month t then nth_or [] month_order (dt_month t - 1) else [])"

definition day_name :: "datetime \<Rightarrow> string" where
  "day_name t = nth_or [] weekday_order (weekday_index t)"

subsection \<open>The \<open>.dt\<close> accessor\<close>

text \<open>\<open>series.dt\<close> is there for a column of timestamps only.\<close>

definition dt_values :: "series \<Rightarrow> error + datetime option list" where
  "dt_values s =
     emap (\<lambda>c. case c of NA \<Rightarrow> Inr None | Stamp t \<Rightarrow> Inr (Some t)
                        | _ \<Rightarrow> Inl (AttributeError ''Can only use .dt accessor with datetimelike values''))
          (vals s)"

text \<open>\<open>.dt.hour\<close> and \<open>.dt.year\<close> are integers when every timestamp is there, and floats
  with \<open>NaN\<close> as soon as one is missing.\<close>

datatype pyval = PyInt int | PyFloat int | PyNaN

definition dt_field :: "(datetime \<Rightarrow> int) \<Rightarrow> datetime option list \<Rightarrow> pyval list" where
  "dt_field f ts =
     map (\<lambda>t. case t of None \<Rightarrow> PyNaN
                      | Some d \<Rightarrow> if None \<in> set ts then PyFloat (f d) else PyInt (f d)) ts"

text \<open>\<open>str\<close> of such a value: a float that is a whole number prints with \<open>.0\<close>.\<close>

fun py_str :: "pyval \<Rightarrow> string" where
  "py_str (PyInt i) = str_int i"
| "py_str (PyFloat i) = str_int i @ ''.0''"
| "py_str PyNaN = ''nan''"

fun cell_of_pyval :: "pyval \<Rightarrow> cell" where
  "cell_of_pyval (PyInt i) = Num (of_int i)"
| "cell_of_pyval (PyFloat i) = Num (of_int i)"
| "cell_of_pyval PyNaN = NA"

text \<open>\<open>pd.Categorical(values, categories=cats, ordered=True)\<close>: a value that is not one of
  the categories is missing.\<close>

definition categorical :: "string list \<Rightarrow> series \<Rightarrow> series" where
  "categorical cats s =
     Categorical cats (map (\<lambda>c. case c of Str l \<Rightarrow> if l \<in> set cats then Str l else NA | _ \<Rightarrow> NA) (vals s))"

definition str_or_na :: "string option \<Rightarrow> cell" where
  "str_or_na r = (case r of None \<Rightarrow> NA | Some l \<Rightarrow> Str l)"

subsection \<open>The grouping column (lines 163 to 176)\<close>

text \<open>
  The function assigns to columns of the frame it is given, which the caller keeps: each
  branch returns the frame as it stands when the branch ends or raises, and the error if
  it raised.
\<close>

definition month_branch :: "frame \<Rightarrow> frame \<times> error option" where
  "month_branch df =
     (case ebind (getcol df ''date'') dt_values of
        Inl e \<Rightarrow> (df, Some e)
      | Inr ts \<Rightarrow>
          (let df1 = setcol df ''month'' (Plain (map (\<lambda>t. str_or_na (map_option month_abbr t)) ts)) in
           case getcol df1 ''month'' of
             Inl e \<Rightarrow> (df1, Some e)
           | Inr m \<Rightarrow> (setcol df1 ''month'' (categorical month_order m), None)))"

definition weekday_branch :: "frame \<Rightarrow> frame \<times> error option" where
  "weekday_branch df =
     (case ebind (getcol df ''date'') dt_values of
        Inl e \<Rightarrow> (df, Some e)
      | Inr ts \<Rightarrow>
          (let df1 = setcol df ''weekday'' (Plain (map (\<lambda>t. str_or_na (map_option day_name t)) ts)) in
           case getcol df1 ''weekday'' of
             Inl e \<Rightarrow> (df1, Some e)
           | Inr w \<Rightarrow> (setcol df1 ''weekday'' (categorical weekday_order w), None)))"

definition hour_branch :: "string list \<Rightarrow> frame \<Rightarrow> frame \<times> error option" where
  "hour_branch order df =
     (case ebind (getcol df ''time'') dt_values of
        Inl e \<Rightarrow> (df, Some e)
      | Inr ts \<Rightarrow>
          (let hs = dt_field (\<lambda>t. int (dt_hour t)) ts;
               df1 = setcol df ''hour'' (Plain (map cell_of_pyval hs)) in
           case emap (\<lambda>h. hour_label (py_str h)) hs of
             Inl e \<Rightarrow> (df1, Some e)
           | Inr ls \<Rightarrow>
               (let df2 = setcol df1 ''hour'' (Plain (map Str ls)) in
                case getcol df2 ''hour'' of
                  Inl e \<Rightarrow> (df2, Some e)
                | Inr h \<Rightarrow> (setcol df2 ''hour'' (categorical order h), None))))"

definition year_branch :: "frame \<Rightarrow> frame \<times> error option" where
  "year_branch df =
     (case ebind (getcol df ''date'') dt_values of
        Inl e \<Rightarrow> (df, Some e)
      | Inr ts \<Rightarrow>
          (let df1 = setcol df ''year'' (Plain (map (\<lambda>y. Str (py_str y)) (dt_field dt_year ts))) in
           case getcol df1 ''year'' of
             Inl e \<Rightarrow> (df1, Some e)
           | Inr y \<Rightarrow> (setcol df1 ''year'' (Plain (vals y)), None)))"

definition derive_group_col :: "string list \<Rightarrow> string \<Rightarrow> frame \<Rightarrow> frame \<times> error option" where
  "derive_group_col order group_col df =
     (if group_col = ''month'' then month_branch df
      else if group_col = ''weekday'' then weekday_branch df
      else if group_col = ''hour'' then hour_branch order df
      else if group_col = ''year'' then year_branch df
      else (df, None))"

subsection \<open>Group means (line 178)\<close>

text \<open>
  The groups are the pairs (flight, bucket) of the rows where both are present, in sorted
  order: text by code points, numbers by value, the labels of a categorical column by the
  position of the label among its categories.
\<close>

definition stamp_seconds :: "datetime \<Rightarrow> int" where
  "stamp_seconds t =
     days_from_civil (dt_year t) (dt_month t) (dt_day t) * 86400
       + int (dt_hour t) * 3600 + int (dt_minute t) * 60 + int (dt_second t)"

fun cell_key :: "cell \<Rightarrow> nat \<times> rat \<times> string" where
  "cell_key NA = (0, 0, [])"
| "cell_key (Num x) = (1, x, [])"
| "cell_key (Str s) = (2, 0, s)"
| "cell_key (Stamp t) = (3, of_int (stamp_seconds t), [])"
| "cell_key (Delta x) = (4, x, [])"

fun index_of :: "'a list \<Rightarrow> 'a \<Rightarrow> nat" where
  "index_of [] y = 0"
| "index_of (x # xs) y = (if x = y then 0 else Suc (index_of xs y))"

fun bucket_key :: "series \<Rightarrow> cell \<Rightarrow> nat \<times> nat \<times> rat \<times> string" where
  "bucket_key (Plain xs) c = (0, cell_key c)"
| "bucket_key (Categorical cats xs) c = (case c of Str l \<Rightarrow> (index_of cats l, cell_key c) | _ \<Rightarrow> (length cats, cell_key c))"

definition group_key :: "series \<Rightarrow> cell \<times> cell \<Rightarrow> (nat \<times> rat \<times> string) \<times> nat \<times> nat \<times> rat \<times> string" where
  "group_key g k = (cell_key (fst k), bucket_key g (snd k))"

text \<open>
  With a categorical grouping column, \<open>observed=False\<close> makes a group of every flight with
  every category, occurring or not; \<open>observed=True\<close> keeps the pairs that occur.  The
  call leaves \<open>observed\<close> to the default of the library, which is a parameter here
  (\<open>False\<close> up to pandas 2, \<open>True\<close> from pandas 3).
\<close>

definition group_keys :: "bool \<Rightarrow> series \<Rightarrow> series \<Rightarrow> (cell \<times> cell) list" where
  "group_keys observed f g =
     sort_key (group_key g)
       (remdups
          (case g of
             Categorical cats xs \<Rightarrow>
               if observed then [k \<leftarrow> zip (vals f) xs. fst k \<noteq> NA \<and> snd k \<noteq> NA]
               else List.product (dropna (vals f)) (map Str cats)
           | Plain xs \<Rightarrow> [k \<leftarrow> zip (vals f) xs. fst k \<noteq> NA \<and> snd k \<noteq> NA]))"

definition group_mean :: "(cell \<times> cell) list \<Rightarrow> series \<Rightarrow> cell \<times> cell \<Rightarrow> cell" where
  "group_mean keys s k = series_mean (Plain (map snd [p \<leftarrow> zip keys (vals s). fst p = k]))"

definition numeric_series :: "string \<Rightarrow> series \<Rightarrow> error + series" where
  "numeric_series name s =
     (if \<forall>c \<in> set (vals s). (case c of NA \<Rightarrow> True | Num x \<Rightarrow> True | _ \<Rightarrow> False) then Inr s
      else Inl (TypeError ''agg function failed [how->mean,dtype->object]''))"

text \<open>\<open>df.groupby(["flight_id", group_col])[keys].mean().reset_index()\<close>.\<close>

definition groupby_mean :: "bool \<Rightarrow> frame \<Rightarrow> string \<Rightarrow> string list \<Rightarrow> error + frame" where
  "groupby_mean observed df group_col keys =
     ebind (getcol df ''flight_id'') (\<lambda>f.
     ebind (getcol df group_col) (\<lambda>g.
     ebind (emap (getcol df) keys) (\<lambda>ms.
     ebind (emap (\<lambda>(k, m). numeric_series k m) (zip keys ms)) (\<lambda>ms.
     if group_col = ''flight_id'' \<or> ''flight_id'' \<in> set keys \<or> group_col \<in> set keys
     then Inl (ValueError ''cannot insert column, already exists'')
     else
       (let gks = group_keys observed f g;
            rows = zip (vals f) (vals g)
        in Inr \<lparr>nrows = length gks,
                cols = [(''flight_id'', Plain (map fst gks)),
                        (group_col, map_series (\<lambda>_. map snd gks) g)]
                       @ map (\<lambda>(k, m). (k, Plain (map (group_mean rows m) gks))) (zip keys ms)\<rparr>)))))"

subsection \<open>Long table and figures (lines 180 to 215)\<close>

text \<open>\<open>melt\<close> stacks the metric columns: the two id columns are repeated once per metric,
  \<open>Metric\<close> names the column a value came from and \<open>Value\<close> holds it.\<close>

definition melt :: "frame \<Rightarrow> string \<Rightarrow> string list \<Rightarrow> error + frame" where
  "melt avg_vals group_col keys =
     ebind (getcol avg_vals ''flight_id'') (\<lambda>f.
     ebind (getcol avg_vals group_col) (\<lambda>g.
     ebind (emap (getcol avg_vals) keys) (\<lambda>ms.
     Inr \<lparr>nrows = length keys * nrows avg_vals,
          cols = [(''flight_id'', map_series (\<lambda>xs. concat (replicate (length keys) xs)) f),
                  (group_col, map_series (\<lambda>xs. concat (replicate (length keys) xs)) g),
                  (''Metric'', Plain (concat (map (\<lambda>k. replicate (nrows avg_vals) (Str k)) keys))),
                  (''Value'', Plain (concat (map vals ms)))]\<rparr>)))"

text \<open>\<open>avg_long["Metric"].map(metrics)\<close>: a key of the dict becomes its display name,
  anything else is missing.\<close>

definition map_metric :: "(string \<times> string) list \<Rightarrow> series \<Rightarrow> series" where
  "map_metric metrics s =
     Plain (map (\<lambda>c. case c of Str k \<Rightarrow> str_or_na (map_of metrics k) | _ \<Rightarrow> NA) (vals s))"

definition to_upper :: "char \<Rightarrow> char" where
  "to_upper c = (let k = (of_char c :: nat) in if 97 \<le> k \<and> k \<le> 122 then char_of (k - 32) else c)"

definition to_lower :: "char \<Rightarrow> char" where
  "to_lower c = (let k = (of_char c :: nat) in if 65 \<le> k \<and> k \<le> 90 then char_of (k + 32) else c)"

definition capitalize :: "string \<Rightarrow> string" where
  "capitalize s = (case s of [] \<Rightarrow> [] | c # cs \<Rightarrow> to_upper c # map to_lower cs)"

datatype chart_kind = Line | Bar

record figure =
  fig_kind :: chart_kind
  fig_data :: frame
  fig_x :: string
  fig_title :: string
  fig_yaxis_title :: string

definition cell_text :: "cell \<Rightarrow> string" where
  "cell_text c = (case c of Str s \<Rightarrow> s | _ \<Rightarrow> ''nan'')"

definition make_fig :: "chart_kind \<Rightarrow> frame \<Rightarrow> string \<Rightarrow> cell \<Rightarrow> figure" where
  "make_fig k subset_df group_col metric =
     \<lparr>fig_kind = k, fig_data = subset_df, fig_x = group_col,
      fig_title = capitalize group_col @ '' - '' @ cell_text metric,
      fig_yaxis_title = ''Average '' @ cell_text metric\<rparr>"

text \<open>The loop of lines 191 to 213 over the display names; \<open>figs\<close> is the dict built so far.\<close>

fun figs_loop :: "frame \<Rightarrow> series \<Rightarrow> string \<Rightarrow> string \<Rightarrow> cell list \<Rightarrow> (cell \<times> figure) list
    \<Rightarrow> error + (cell \<times> figure) list" where
  "figs_loop avg_long metric_col group_col chart_type [] figs = Inr figs"
| "figs_loop avg_long metric_col group_col chart_type (metric # rest) figs =
     (let subset_df = filter_rows avg_long (map (\<lambda>c. c = metric) (vals metric_col)) in
      if chart_type = ''line''
      then figs_loop avg_long metric_col group_col chart_type rest
             (AList.update metric (make_fig Line subset_df group_col metric) figs)
      else if chart_type = ''bar''
      then figs_loop avg_long metric_col group_col chart_type rest
             (AList.update metric (make_fig Bar subset_df group_col metric) figs)
      else Inl (ValueError ''Unsupported chart_type. Use 'line' or 'bar'.''))"

definition build_figs :: "bool \<Rightarrow> frame \<Rightarrow> string \<Rightarrow> (string \<times> string) list \<Rightarrow> string
    \<Rightarrow> error + (cell \<times> figure) list" where
  "build_figs observed df group_col metrics chart_type =
     ebind (groupby_mean observed df group_col (map fst metrics)) (\<lambda>avg_vals.
     ebind (melt avg_vals group_col (map fst metrics)) (\<lambda>avg_long0.
     ebind (getcol avg_long0 ''Metric'') (\<lambda>m0.
     let avg_long = setcol avg_long0 ''Metric'' (map_metric metrics m0) in
     ebind (getcol avg_long ''Metric'') (\<lambda>m.
     figs_loop avg_long m group_col chart_type (unique (dropna (vals m))) []))))"

text \<open>Lines 157 to 215.  The result is the frame of the caller after the call, and the
  figures or the error.\<close>

definition plot_flight_metrics :: "bool \<Rightarrow> frame \<Rightarrow> string \<Rightarrow> (string \<times> string) list \<Rightarrow> string
    \<Rightarrow> frame \<times> (error + (cell \<times> figure) list)" where
  "plot_flight_metrics observed df group_col metrics chart_type =
     (case hour_order of
        Inl e \<Rightarrow> (df, Inl e)
      | Inr order \<Rightarrow>
          (case derive_group_col order group_col df of
             (df1, Some e) \<Rightarrow> (df1, Inl e)
           | (df1, None) \<Rightarrow> (df1, build_figs observed df1 group_col metrics chart_type)))"

text \<open>Lines 218 to 223.\<close>

definition metrics :: "(string \<times> string) list" where
  "metrics = [(''groundSpeed'', ''Ground Speed''), (''airSpeed'', ''Air Speed''),
              (''altitudeRelative'', ''Altitude''), (''battery0.percentRemaining'', ''Battery %'')]"


subsection \<open>The statistics in the words of the specification\<close>

text \<open>
  The specification speaks of the maximum, the minimum and the mean of a column.  They are
  defined here on the values a column holds, apart from the way pandas computes them, to be
  compared with the reductions above: the numbers (or durations) among the cells, their
  greatest and least element and their arithmetic mean, none of which exists for a column
  without a value.
\<close>

definition numbers :: "cell list \<Rightarrow> rat list" where
  "numbers xs = concat (map (\<lambda>c. case c of Num x \<Rightarrow> [x] | _ \<Rightarrow> []) xs)"

definition durations :: "cell list \<Rightarrow> rat list" where
  "durations xs = concat (map (\<lambda>c. case c of Delta x \<Rightarrow> [x] | _ \<Rightarrow> []) xs)"

definition spec_max :: "rat list \<Rightarrow> rat option" where
  "spec_max vs = (if vs = [] then None else Some (Max (set vs)))"

definition spec_min :: "rat list \<Rightarrow> rat option" where
  "spec_min vs = (if vs = [] then None else Some (Min (set vs)))"

definition spec_mean :: "rat list \<Rightarrow> rat option" where
  "spec_mean vs = (if vs = [] then None else Some (sum_list vs / of_nat (length vs)))"

definition num_or_na :: "rat option \<Rightarrow> cell" where
  "num_or_na r = (case r of None \<Rightarrow> NA | Some x \<Rightarrow> Num x)"

definition delta_or_na :: "rat option \<Rightarrow> cell" where
  "delta_or_na r = (case r of None \<Rightarrow> NA | Some x \<Rightarrow> Delta x)"

text \<open>The cells of a required column in the normalised rows of a file, and the values
  among them.\<close>

definition normalized_col :: "parsers \<Rightarrow> frame \<Rightarrow> string \<Rightarrow> cell list" where
  "normalized_col P df c = map (col_conversion P c) (kept P df c)"

definition numbers_of :: "parsers \<Rightarrow> frame \<Rightarrow> string \<Rightarrow> rat list" where
  "numbers_of P df c = numbers (normalized_col P df c)"

definition durations_of :: "parsers \<Rightarrow> frame \<Rightarrow> string \<Rightarrow> rat list" where
  "durations_of P df c = durations (normalized_col P df c)"

text \<open>The statistics of the summary with the column each is derived from (lines 67 to 79).\<close>

definition derived_stats :: "(string \<times> string) list" where
  "derived_stats =
     [(''flight_time'', ''flightTime''),
      (''flight_distance'', ''flightDistance''),
      (''max_altitude'', ''altitudeRelative''),
      (''max_ground_speed'', ''groundSpeed''),
      (''max_air_speed'', ''airSpeed''),
      (''min_battery'', ''battery0.percentRemaining''),
      (''avg_power'', ''battery0.instantPower''),
      (''avg_altitude'', ''altitudeRelative''),
      (''avg_flight_time'', ''flightTime''),
      (''avg_flight_distance'', ''flightDistance''),
      (''avg_ground_speed'', ''groundSpeed''),
      (''avg_air_speed'', ''airSpeed''),
      (''avg_battery_remaining'', ''battery0.percentRemaining'')]"

subsection \<open>The bucket labels in the words of the specification\<close>

text \<open>The 24 labels of the 12-hour clock, from midnight on.\<close>

definition hour_labels :: "string list" where
  "hour_labels = map strftime_I_p [0..<24]"





text \<open>The position of an hour label on the clock.\<close>

definition hour_index :: "cell \<Rightarrow> nat" where
  "hour_index c = (case c of Str l \<Rightarrow> index_of hour_labels l | _ \<Rightarrow> length hour_labels)"


subsection \<open>Parsers and files of the examples\<close>

text \<open>
  Parsers for the examples below.  They read the text the examples use the way pandas
  does: a date \<open>YYYY-MM-DD\<close>, a time of day \<open>HH:MM:SS\<close> (on 1900-01-01, as \<open>to_datetime\<close>
  with a format of hours, minutes and seconds alone gives it), a duration \<open>HH:MM:SS\<close> in
  seconds.  They reject everything else.
\<close>

definition number_of :: "string \<Rightarrow> nat option" where
  "number_of s =
     (if s \<noteq> [] \<and> list_all (\<lambda>c. digit_val c \<noteq> None) s
      then Some (fold (\<lambda>c n. 10 * n + (case digit_val c of None \<Rightarrow> 0 | Some d \<Rightarrow> d)) s 0)
      else None)"

definition iso_date :: "string \<Rightarrow> datetime option" where
  "iso_date s =
     (if length s = 10 \<and> s ! 4 = CHR ''-'' \<and> s ! 7 = CHR ''-''
      then (case (number_of (take 4 s), number_of (take 2 (drop 5 s)), number_of (drop 8 s)) of
              (Some y, Some m, Some d) \<Rightarrow>
                if 1 \<le> m \<and> m \<le> 12 \<and> 1 \<le> d \<and> d \<le> 31 then Some (DateTime (int y) m d 0 0 0) else None
            | _ \<Rightarrow> None)
      else None)"

definition hms :: "string \<Rightarrow> (nat \<times> nat \<times> nat) option" where
  "hms s =
     (if length s = 8 \<and> s ! 2 = CHR '':'' \<and> s ! 5 = CHR '':''
      then (case (number_of (take 2 s), number_of (take 2 (drop 3 s)), number_of (drop 6 s)) of
              (Some h, Some m, Some sec) \<Rightarrow> if m \<le> 59 \<and> sec \<le> 59 then Some (h, m, sec) else None
            | _ \<Rightarrow> None)
      else None)"

definition example_parsers :: parsers where
  "example_parsers =
     \<lparr>p_datetime = (\<lambda>col c. case c of Str s \<Rightarrow> iso_date s | _ \<Rightarrow> None),
      p_time = (\<lambda>c. case c of
                  Str s \<Rightarrow> (case hms s of
                              Some (h, m, sec) \<Rightarrow> if h \<le> 23 then Some (DateTime 1900 1 1 h m sec) else None
                            | None \<Rightarrow> None)
                | _ \<Rightarrow> None),
      p_numeric = (\<lambda>c. None),
      p_timedelta = (\<lambda>c. case c of
                  Str s \<Rightarrow> (case hms s of
                              Some (h, m, sec) \<Rightarrow> Some (of_nat (h * 3600 + m * 60 + sec))
                            | None \<Rightarrow> None)
                | _ \<Rightarrow> None)\<rparr>"

text \<open>The two files of the scenario: file A with two rows, dated 2024-01-10 and
  2024-01-11, ground speeds 5.0 and 7.0; file B with one row dated 2024-02-01, ground
  speed 3.0.\<close>

definition file_A :: frame where
  "file_A =
     \<lparr>nrows = 2,
      cols = [(''Timestamp'', Plain [Stamp (DateTime 2024 1 10 9 0 0), Stamp (DateTime 2024 1 11 9 0 0)]),
              (''groundSpeed'', Plain [Num 5, Num 7]),
              (''clock.currentDate'', Plain [Str ''2024-01-10'', Str ''2024-01-11''])]\<rparr>"

definition file_B :: frame where
  "file_B =
     \<lparr>nrows = 1,
      cols = [(''Timestamp'', Plain [Stamp (DateTime 2024 2 1 9 0 0)]),
              (''groundSpeed'', Plain [Num 3]),
              (''clock.currentDate'', Plain [Str ''2024-02-01''])]\<rparr>"

text \<open>A file with the columns \<open>groundSpeed\<close> and \<open>note\<close> only, as it stands before
  \<open>read_csv\<close>: it has no \<open>Timestamp\<close> column.  And a frame \<open>read_csv\<close> returned with no
  date that parses.\<close>

definition file_extra :: frame where
  "file_extra =
     \<lparr>nrows = 2,
      cols = [(''groundSpeed'', Plain [Num 5, Num 7]),
              (''note'', Plain [Str ''a'', Str ''b''])]\<rparr>"

definition file_undated :: frame where
  "file_undated =
     \<lparr>nrows = 1,
      cols = [(''Timestamp'', Plain [NA]),
              (''groundSpeed'', Plain [Num 4]),
              (''clock.currentDate'', Plain [Str ''unknown''])]\<rparr>"

subsection \<open>The script from the files to its values\<close>

text \<open>Line 110 after the load loop.\<close>

definition script_total_flights :: "parsers \<Rightarrow> frame list \<Rightarrow> error + nat" where
  "script_total_flights P all_files = ebind (load_all P all_files) (\<lambda>t. total_flights (flight_summary t))"

text \<open>Lines 110 to 116 after the load loop.\<close>

definition script_kpis :: "parsers \<Rightarrow> frame list \<Rightarrow> error + kpis" where
  "script_kpis P all_files = ebind (load_all P all_files) (\<lambda>t. kpi_calculations P (flight_summary t))"

text \<open>Line 229 after the load loop: the figures of the call on \<open>df_all\<close>.\<close>

definition script_charts :: "bool \<Rightarrow> parsers \<Rightarrow> frame list \<Rightarrow> string \<Rightarrow> string
    \<Rightarrow> error + (cell \<times> figure) list" where
  "script_charts observed P all_files group_col chart_type =
     ebind (load_all P all_files) (\<lambda>t.
       snd (plot_flight_metrics observed (df_all t) group_col metrics chart_type))"

subsection \<open>Rows of a table\<close>

text \<open>The table read row by row: the cells of the named columns in each row, a name the
  table does not have giving nothing.\<close>

fun transpose_rows :: "nat \<Rightarrow> cell list list \<Rightarrow> cell list list" where
  "transpose_rows 0 cs = []"
| "transpose_rows (Suc n) cs =
     map (\<lambda>xs. case xs of [] \<Rightarrow> NA | x # _ \<Rightarrow> x) cs # transpose_rows n (map tl cs)"

definition table_rows :: "frame \<Rightarrow> string list \<Rightarrow> cell list list" where
  "table_rows df ns =
     transpose_rows (nrows df)
       (concat (map (\<lambda>n. case map_of (cols df) n of None \<Rightarrow> [] | Some s \<Rightarrow> [vals s]) ns))"

text \<open>The rows of the chart of one metric, as (flight, bucket, value).\<close>

definition chart_rows :: "(cell \<times> figure) list \<Rightarrow> string \<Rightarrow> string \<Rightarrow> cell list list option" where
  "chart_rows figs metric group_col =
     map_option (\<lambda>f. table_rows (fig_data f) [''flight_id'', group_col, ''Value'']) (map_of figs (Str metric))"

definition script_chart_rows :: "bool \<Rightarrow> parsers \<Rightarrow> frame list \<Rightarrow> string \<Rightarrow> string \<Rightarrow> string
    \<Rightarrow> error + cell list list option" where
  "script_chart_rows observed P all_files group_col chart_type metric =
     ebind (script_charts observed P all_files group_col chart_type) (\<lambda>figs.
       Inr (chart_rows figs metric group_col))"

text \<open>The column of the summary table of that name, as the script has it after line 90.\<close>

definition script_summary_col :: "parsers \<Rightarrow> frame list \<Rightarrow> string \<Rightarrow> error + series" where
  "script_summary_col P all_files name = ebind (load_all P all_files) (\<lambda>t. getcol (flight_summary t) name)"



definition fleet_AB :: frame where
  "fleet_AB =
     \<lparr>nrows = 3,
      cols = [(''Timestamp'', Plain [Stamp (DateTime 2024 1 10 9 0 0), Stamp (DateTime 2024 1 11 9 0 0),
                                    Stamp (DateTime 2024 2 1 9 0 0)]),
              (''groundSpeed'', Plain [Num 5, Num 7, Num 3]),
              (''clock.currentDate'', Plain [Str ''2024-01-10'', Str ''2024-01-11'', Str ''2024-02-01'']),
              (''airSpeed'', Plain [NA, NA, NA]),
              (''altitudeRelative'', Plain [NA, NA, NA]),
              (''altitudeAMSL'', Plain [NA, NA, NA]),
              (''flightDistance'', Plain [NA, NA, NA]),
              (''flightTime'', Plain [NA, NA, NA]),
              (''distanceToHome'', Plain [NA, NA, NA]),
              (''battery0.voltage'', Plain [NA, NA, NA]),
              (''battery0.current'', Plain [NA, NA, NA]),
              (''battery0.percentRemaining'', Plain [NA, NA, NA]),
              (''battery0.instantPower'', Plain [NA, NA, NA]),
              (''gps.lat'', Plain [NA, NA, NA]),
              (''gps.lon'', Plain [NA, NA, NA]),
              (''clock.currentTime'', Plain [NA, NA, NA]),
              (''flight_id'', Plain [Str ''flight_1'', Str ''flight_1'', Str ''flight_2'']),
              (''date'', Plain [Stamp (DateTime 2024 1 10 0 0 0), Stamp (DateTime 2024 1 11 0 0 0),
                               Stamp (DateTime 2024 2 1 0 0 0)]),
              (''time'', Plain [NA, NA, NA])]\<rparr>"

text \<open>The number of flights as the specification counts them: the files, less those
  none of whose rows has a date that parses.\<close>

definition spec_total_flights :: "parsers \<Rightarrow> frame list \<Rightarrow> nat" where
  "spec_total_flights P all_files =
     length all_files - length [f \<leftarrow> all_files. True \<notin> set (date_mask P f)]"


text \<open>A fleet table of two flights with rows at 23:10, 00:20 and 13:05, and at 09:00.\<close>

definition fleet_hours :: frame where
  "fleet_hours =
     \<lparr>nrows = 4,
      cols = [(''groundSpeed'', Plain [Num 5, Num 7, Num 3, Num 4]),
              (''airSpeed'', Plain [NA, NA, NA, NA]),
              (''altitudeRelative'', Plain [Num 10, Num 12, NA, Num 20]),
              (''battery0.percentRemaining'', Plain [Num 90, Num 80, Num 70, Num 60]),
              (''flight_id'', Plain [Str ''flight_1'', Str ''flight_1'', Str ''flight_1'', Str ''flight_2'']),
              (''date'', Plain [Stamp (DateTime 2024 1 10 0 0 0), Stamp (DateTime 2024 1 10 0 0 0),
                               Stamp (DateTime 2024 1 10 0 0 0), Stamp (DateTime 2024 2 1 0 0 0)]),
              (''time'', Plain [Stamp (DateTime 1900 1 1 23 10 0), Stamp (DateTime 1900 1 1 0 20 0),
                               Stamp (DateTime 1900 1 1 13 5 0), Stamp (DateTime 1900 1 1 9 0 0)])]\<rparr>"


section \<open>Frames as maps from names to columns\<close>

lemma ebind_Inl: "ebind (Inl e) f = Inl e"
  by (simp add: ebind_def)

lemma ebind_Inr: "ebind (Inr x) f = f x"
  by (simp add: ebind_def)

lemma map_of_replace_same:
  "map_of (map (\<lambda>(k, t). if k = n then (k, s) else (k, t)) xs) n =
     (if n \<in> fst ` set xs then Some s else None)"
  by (induction xs) auto

lemma map_of_replace_other:
  "c \<noteq> n \<Longrightarrow> map_of (map (\<lambda>(k, t). if k = n then (k, s) else (k, t)) xs) c = map_of xs c"
  by (induction xs) auto



lemma getcol_setcol: "getcol (setcol df n s) c = (if c = n then Inr s else getcol df c)"
proof (cases "n \<in> set (columns df)")
  case True
  then show ?thesis
    by (simp add: getcol_def setcol_def columns_def map_of_replace_same map_of_replace_other)
next
  case False
  then have "map_of (cols df) n = None"
    by (simp add: columns_def map_of_eq_None_iff)
  with False show ?thesis
    by (auto simp: getcol_def setcol_def map_add_def split: option.splits)
qed


lemma getcol_Inr_columns: "getcol df c = Inr s \<Longrightarrow> c \<in> set (columns df)"
  by (auto simp: getcol_def columns_def split: option.splits dest: map_of_SomeD intro: rev_image_eqI)

lemma columns_getcol: "c \<in> set (columns df) \<Longrightarrow> \<exists>s. getcol df c = Inr s"
proof -
  assume "c \<in> set (columns df)"
  then have "c \<in> dom (map_of (cols df))"
    by (simp add: columns_def dom_map_of_conv_image_fst)
  then show ?thesis by (auto simp: getcol_def)
qed

lemma getcol_filter_rows:
  "getcol (filter_rows df m) c =
     (case getcol df c of Inl e \<Rightarrow> Inl e | Inr s \<Rightarrow> Inr (map_series (mask_list m) s))"
proof -
  have "map_of (map (\<lambda>(n, s). (n, map_series (mask_list m) s)) xs) c =
      map_option (map_series (mask_list m)) (map_of xs c)" for xs
    by (induction xs) auto
  then show ?thesis
    by (simp add: getcol_def filter_rows_def split: option.splits)
qed

lemma nrows_filter_rows: "nrows (filter_rows df m) = length (filter id (take (nrows df) m))"
  by (simp add: filter_rows_def)

lemma vals_map_series: "vals (map_series f s) = f (vals s)"
  by (cases s) simp_all

lemma map_of_block: "map_of [(m, s) \<leftarrow> xs. m = n] c = (if c = n then map_of xs c else None)"
  by (induction xs) auto

lemma map_of_blocks:
  "map_of (concat (map (\<lambda>n. [(m, s) \<leftarrow> xs. m = n]) ns)) c = (if c \<in> set ns then map_of xs c else None)"
  by (induction ns) (auto simp: map_add_def map_of_block split: option.splits)

lemma select_getcol:
  assumes "set ns \<subseteq> set (columns df)"
  shows "\<exists>d. select df ns = Inr d \<and> nrows d = nrows df \<and> set (columns d) = set ns
           \<and> (\<forall>c. getcol d c = (if c \<in> set ns then getcol df c else Inl (KeyError c)))"
proof -
  let ?d = "df\<lparr>cols := concat (map (\<lambda>n. [(m, s) \<leftarrow> cols df. m = n]) ns)\<rparr>"
  have "[n \<leftarrow> ns. n \<notin> set (columns df)] = []"
    using assms by (auto simp: filter_empty_conv)
  then have sel: "select df ns = Inr ?d" by (simp add: select_def)
  have g: "\<forall>c. getcol ?d c = (if c \<in> set ns then getcol df c else Inl (KeyError c))"
    by (simp add: getcol_def map_of_blocks)
  have "set (columns ?d) = set ns"
  proof
    show "set (columns ?d) \<subseteq> set ns" by (auto simp: columns_def)
    show "set ns \<subseteq> set (columns ?d)"
    proof
      fix c assume c: "c \<in> set ns"
      with assms obtain s where "getcol df c = Inr s" using columns_getcol by blast
      with g c have "getcol ?d c = Inr s" by simp
      then show "c \<in> set (columns ?d)" by (rule getcol_Inr_columns)
    qed
  qed
  with sel g show ?thesis by simp
qed

section \<open>Evaluation on concrete inputs\<close>

text \<open>Rewriting a call on concrete arguments evaluates the argument first and the
  continuation after it: the congruence rules below keep the simplifier out of a
  continuation whose argument is not known yet.\<close>

lemma ebind_weak_cong: "m = m' \<Longrightarrow> ebind m f = ebind m' f"
  by simp
lemmas eval_congs = ebind_weak_cong sum.case_cong_weak option.case_cong_weak list.case_cong_weak
  prod.case_cong_weak let_weak_cong
lemmas frame_defs = columns_def getcol_def setcol_def select_def available_cols_def required_cols_def
  na_column_def add_missing_step_def add_missing_def reconcile_def ebind_Inl ebind_Inr Let_def
lemma ex_flight_ids [simp]:
  "flight_id_of 0 = ''flight_1''" "flight_id_of (Suc 0) = ''flight_2''"
  by code_simp+
lemma replicate_numeral_eval: "replicate (numeral k) x = x # replicate (pred_numeral k) x"
  by (simp add: numeral_eq_Suc)
lemmas norm_defs = replicate_numeral_eval stamp_or_na_def datetime_cell_def time_cell_def
  numeric_cell_def timedelta_cell_def to_datetime_def to_time_def to_numeric_def
  to_timedelta_def notna_def mask_list_def filter_rows_def add_derived_def drop_invalid_def
  numeric_cols_def convert_types_def normalize_def dropna_def series_max_def series_min_def
  series_mean_def rint_def round2_def summary_def process_file_def unique_def empty_frame_def
  frame_of_records_def concat_frames_def load_all_def nunique_def total_flights_def
  kpi_calculations_def series_sum_delta_def series_sum_num_def
lemma ex_parsers [simp]:
  "p_datetime example_parsers col (Str s) = iso_date s"
  "p_time example_parsers (Str s) = (case hms s of
       Some (h, m, sec) \<Rightarrow> if h \<le> 23 then Some (DateTime 1900 1 1 h m sec) else None | None \<Rightarrow> None)"
  "p_numeric example_parsers c = None"
  "p_timedelta example_parsers (Str s) = (case hms s of
       Some (h, m, sec) \<Rightarrow> Some (of_nat (h * 3600 + m * 60 + sec)) | None \<Rightarrow> None)"
  by (simp_all add: example_parsers_def)
lemma ex_dates [simp]:
  "iso_date ''2024-01-10'' = Some (DateTime 2024 1 10 0 0 0)"
  "iso_date ''2024-01-11'' = Some (DateTime 2024 1 11 0 0 0)"
  "iso_date ''2024-02-01'' = Some (DateTime 2024 2 1 0 0 0)"
  "iso_date ''unknown'' = None"
  by code_simp+
lemmas ex_defs = file_A_def file_B_def
  file_extra_def file_undated_def script_total_flights_def script_kpis_def script_charts_def
  table_rows_def chart_rows_def script_chart_rows_def script_summary_col_def

section \<open>Schema reconciliation\<close>

lemma required_cols_distinct: "distinct required_cols"
  by (simp add: required_cols_def)

lemma required_cols_length: "length required_cols = 16"
  by (simp add: required_cols_def)

lemma columns_setcol_new:
  "name \<notin> set (columns df) \<Longrightarrow> columns (setcol df name s) = columns df @ [name]"
  by (simp add: setcol_def columns_def)

lemma nrows_setcol: "nrows (setcol df name s) = nrows df"
  by (simp add: setcol_def)

lemma getcol_setcol_new_other:
  "name \<notin> set (columns df) \<Longrightarrow> c \<in> set (columns df) \<Longrightarrow> getcol (setcol df name s) c = getcol df c"
proof -
  assume a: "name \<notin> set (columns df)" and b: "c \<in> set (columns df)"
  from b have "c \<in> dom (map_of (cols df))"
    by (simp add: columns_def dom_map_of_conv_image_fst)
  then have "map_of (cols df @ [(name, s)]) c = map_of (cols df) c"
    by (auto simp: map_add_def split: option.splits)
  with a show ?thesis by (simp add: getcol_def setcol_def)
qed

lemma getcol_setcol_new_same:
  "name \<notin> set (columns df) \<Longrightarrow> getcol (setcol df name s) name = Inr s"
proof -
  assume a: "name \<notin> set (columns df)"
  then have "map_of (cols df) name = None"
    by (simp add: columns_def map_of_eq_None_iff)
  with a show ?thesis by (simp add: getcol_def setcol_def map_add_def)
qed

lemma add_missing_fold:
  "distinct rs \<Longrightarrow>
   columns (fold add_missing_step rs df) = columns df @ [c \<leftarrow> rs. c \<notin> set (columns df)]
   \<and> nrows (fold add_missing_step rs df) = nrows df
   \<and> (\<forall>c \<in> set (columns df). getcol (fold add_missing_step rs df) c = getcol df c)
   \<and> (\<forall>c \<in> set rs. c \<notin> set (columns df) \<longrightarrow>
          getcol (fold add_missing_step rs df) c = Inr (na_column df))"
proof (induction rs arbitrary: df)
  case Nil
  then show ?case by simp
next
  case (Cons r rs)
  let ?d = "add_missing_step r df"
  from Cons.prems have dr: "distinct rs" and rn: "r \<notin> set rs" by simp_all
  note ih = Cons.IH [OF dr, of ?d]
  show ?case
  proof (cases "r \<in> set (columns df)")
    case True
    then have "?d = df" by (simp add: add_missing_step_def)
    with ih True rn show ?thesis by auto
  next
    case False
    then have d: "?d = setcol df r (na_column df)" by (simp add: add_missing_step_def)
    have cd: "columns ?d = columns df @ [r]" using False d by (simp add: columns_setcol_new)
    have nd: "nrows ?d = nrows df" using d by (simp add: nrows_setcol)
    have na: "na_column ?d = na_column df" using nd by (simp add: na_column_def)
    have f: "[c \<leftarrow> rs. c \<notin> set (columns ?d)] = [c \<leftarrow> rs. c \<notin> set (columns df)]"
      using rn cd by (auto intro: filter_cong)
    have c1: "columns (fold add_missing_step (r # rs) df) =
        columns df @ [c \<leftarrow> r # rs. c \<notin> set (columns df)]"
      using ih cd f False by simp
    have c2: "nrows (fold add_missing_step (r # rs) df) = nrows df"
      using ih nd by simp
    have c3: "\<forall>c \<in> set (columns df). getcol (fold add_missing_step (r # rs) df) c = getcol df c"
    proof
      fix c assume c: "c \<in> set (columns df)"
      then have "getcol (fold add_missing_step rs ?d) c = getcol ?d c" using ih cd by simp
      also have "\<dots> = getcol df c" using d False c by (simp add: getcol_setcol_new_other)
      finally show "getcol (fold add_missing_step (r # rs) df) c = getcol df c" by simp
    qed
    have c4: "\<forall>c \<in> set (r # rs). c \<notin> set (columns df) \<longrightarrow>
        getcol (fold add_missing_step (r # rs) df) c = Inr (na_column df)"
    proof (intro ballI impI)
      fix c assume c: "c \<in> set (r # rs)" and n: "c \<notin> set (columns df)"
      show "getcol (fold add_missing_step (r # rs) df) c = Inr (na_column df)"
      proof (cases "c = r")
        case True
        then have "getcol (fold add_missing_step rs ?d) c = getcol ?d c" using ih cd by simp
        also have "\<dots> = Inr (na_column df)" using d False True by (simp add: getcol_setcol_new_same)
        finally show ?thesis by simp
      next
        case False
        with c have "c \<in> set rs" by simp
        moreover have "c \<notin> set (columns ?d)" using cd n False by simp
        ultimately show ?thesis using ih na by simp
      qed
    qed
    from c1 c2 c3 c4 show ?thesis by blast
  qed
qed

lemma filter_name_single:
  "distinct (map fst xs) \<Longrightarrow> map_of xs n = Some s \<Longrightarrow> [(m, t) \<leftarrow> xs. m = n] = [(n, s)]"
proof (induction xs)
  case Nil
  then show ?case by simp
next
  case (Cons x xs)
  obtain m t where x: "x = (m, t)" by (cases x)
  show ?case
  proof (cases "m = n")
    case True
    with Cons.prems x have "n \<notin> fst ` set xs" and "t = s" by auto
    then have "[(m, t) \<leftarrow> xs. m = n] = []" by (force simp: filter_empty_conv)
    with True x \<open>t = s\<close> show ?thesis by simp
  next
    case False
    with Cons x show ?thesis by simp
  qed
qed

lemma select_ok:
  assumes d: "distinct (columns df)" and sub: "set ns \<subseteq> set (columns df)"
  shows "\<exists>d. select df ns = Inr d \<and> columns d = ns \<and> nrows d = nrows df
           \<and> (\<forall>c \<in> set ns. getcol d c = getcol df c)"
proof -
  let ?blk = "\<lambda>n. [(m, s) \<leftarrow> cols df. m = n]"
  let ?d = "df\<lparr>cols := concat (map ?blk ns)\<rparr>"
  have none: "[n \<leftarrow> ns. n \<notin> set (columns df)] = []"
    using sub by (auto simp: filter_empty_conv)
  then have sel: "select df ns = Inr ?d" by (simp add: select_def)
  have blk: "\<exists>s. map_of (cols df) n = Some s \<and> ?blk n = [(n, s)]" if "n \<in> set (columns df)" for n
  proof -
    from that obtain s where s: "map_of (cols df) n = Some s"
      by (auto simp: columns_def weak_map_of_SomeI dest!: weak_map_of_SomeI)
    with d have "?blk n = [(n, s)]" by (simp add: columns_def filter_name_single)
    with s show ?thesis by blast
  qed
  have gen: "set ms \<subseteq> set (columns df) \<Longrightarrow>
      map fst (concat (map ?blk ms)) = ms
      \<and> (\<forall>c \<in> set ms. map_of (concat (map ?blk ms)) c = map_of (cols df) c)" for ms
  proof (induction ms)
    case Nil
    then show ?case by simp
  next
    case (Cons m ms)
    then have m: "m \<in> set (columns df)" and ms: "set ms \<subseteq> set (columns df)" by simp_all
    from blk [OF m] obtain s where s: "map_of (cols df) m = Some s" "?blk m = [(m, s)]" by blast
    from Cons.IH [OF ms] s show ?case by auto
  qed
  from gen [OF sub] have "columns ?d = ns" and "\<forall>c \<in> set ns. getcol ?d c = getcol df c"
    by (simp_all add: columns_def getcol_def)
  with sel show ?thesis by simp
qed

text \<open>
  Lines 39 to 45 on a frame \<open>read_csv\<close> returned (its column labels are unique): the
  reconciliation succeeds and yields a frame on the same rows with exactly the 16 required
  columns, each once; a required column of the frame keeps its values, a required column
  the frame lacks is the missing marker in every row, and no other column remains.
\<close>

lemma reconcile_exact_schema:
  assumes "distinct (columns df)"
  shows "\<exists>d. reconcile df = Inr d \<and> nrows d = nrows df
           \<and> length (columns d) = 16 \<and> distinct (columns d)
           \<and> set (columns d) = set required_cols
           \<and> (\<forall>c \<in> set required_cols.
                 getcol d c = (if c \<in> set (columns df) then getcol df c
                               else Inr (Plain (replicate (nrows df) NA))))"
proof -
  have sub: "set (available_cols df) \<subseteq> set (columns df)"
    by (auto simp: available_cols_def)
  from select_ok [OF assms sub] obtain d0 where
    sel: "select df (available_cols df) = Inr d0" and
    c0: "columns d0 = available_cols df" and n0: "nrows d0 = nrows df" and
    g0: "\<forall>c \<in> set (available_cols df). getcol d0 c = getcol df c" by blast
  let ?d = "add_missing d0"
  note f = add_missing_fold [OF required_cols_distinct, of d0, folded add_missing_def]
  have rec: "reconcile df = Inr ?d" using sel by (simp add: reconcile_def ebind_def)
  have cols: "columns ?d = available_cols df @ [c \<leftarrow> required_cols. c \<notin> set (columns df)]"
    using f c0 by (auto simp: available_cols_def intro: filter_cong)
  have mset_eq: "set (columns ?d) = set required_cols"
    using cols by (auto simp: available_cols_def)
  have dist: "distinct (columns ?d)"
    using cols required_cols_distinct by (auto simp: available_cols_def)
  have len: "length (columns ?d) = 16"
  proof -
    have "length (columns ?d) = card (set (columns ?d))" using dist by (simp add: distinct_card)
    also have "\<dots> = card (set required_cols)" using mset_eq by simp
    also have "\<dots> = 16" using required_cols_distinct required_cols_length by (simp add: distinct_card)
    finally show ?thesis .
  qed
  have vals: "\<forall>c \<in> set required_cols.
      getcol ?d c = (if c \<in> set (columns df) then getcol df c
                     else Inr (Plain (replicate (nrows df) NA)))"
  proof
    fix c assume c: "c \<in> set required_cols"
    show "getcol ?d c = (if c \<in> set (columns df) then getcol df c
                         else Inr (Plain (replicate (nrows df) NA)))"
    proof (cases "c \<in> set (columns df)")
      case True
      with c have "c \<in> set (available_cols df)" by (simp add: available_cols_def)
      with f c0 g0 True show ?thesis by simp
    next
      case False
      then have "c \<notin> set (columns d0)" using c0 by (simp add: available_cols_def)
      with f c have "getcol ?d c = Inr (na_column d0)" by blast
      with False n0 show ?thesis by (simp add: na_column_def)
    qed
  qed
  from rec n0 f len dist mset_eq vals show ?thesis by auto
qed

text \<open>
  Claim C1 (the code departs from it).  The claim is about every input file, whatever its
  columns.  Lines 39 to 45 do fill every required column a frame lacks, \<open>Timestamp\<close>
  included, but a file without a \<open>Timestamp\<close> column never reaches them: line 36 asks
  \<open>read_csv\<close> to parse that column, and \<open>read_csv\<close> raises \<open>ValueError\<close> when the file
  does not have it.  For the file with the columns \<open>groundSpeed\<close> and \<open>note\<close> only, reading
  fails, and so does the whole pass of the loop over that file: there is no row set, and
  \<open>Timestamp\<close> is not added with the missing marker.
\<close>

theorem missing_timestamp_file_refused:
  "''Timestamp'' \<in> set required_cols
   \<and> read_csv P file_extra = Inl (ValueError ''Missing column provided to parse_dates: Timestamp'')
   \<and> load_file P i file_extra = Inl (ValueError ''Missing column provided to parse_dates: Timestamp'')"
  by (simp add: required_cols_def load_file_def read_csv_def getcol_def file_extra_def ebind_Inl)


section \<open>Normalisation of one file\<close>

lemma reconcile_cols:
  "\<exists>d. reconcile df = Inr d \<and> nrows d = nrows df
       \<and> (\<forall>c \<in> set required_cols. \<exists>s. getcol d c = Inr s \<and> vals s = file_col df c)"
proof -
  have sub: "set (available_cols df) \<subseteq> set (columns df)"
    by (auto simp: available_cols_def)
  from select_getcol [OF sub] obtain d0 where
    sel: "select df (available_cols df) = Inr d0" and n0: "nrows d0 = nrows df" and
    c0: "set (columns d0) = set (available_cols df)" and
    g0: "\<forall>c. getcol d0 c = (if c \<in> set (available_cols df) then getcol df c else Inl (KeyError c))"
    by blast
  let ?d = "add_missing d0"
  note f = add_missing_fold [OF required_cols_distinct, of d0, folded add_missing_def]
  have rec: "reconcile df = Inr ?d" using sel by (simp add: reconcile_def ebind_def)
  have "\<exists>s. getcol ?d c = Inr s \<and> vals s = file_col df c" if c: "c \<in> set required_cols" for c
  proof (cases "c \<in> set (columns df)")
    case True
    with c have a: "c \<in> set (available_cols df)" by (simp add: available_cols_def)
    from True obtain s where s: "getcol df c = Inr s" using columns_getcol by blast
    from a c0 f have "getcol ?d c = getcol d0 c" by blast
    with a g0 s have "getcol ?d c = Inr s" by simp
    with s show ?thesis by (simp add: file_col_def)
  next
    case False
    then have a: "c \<notin> set (columns d0)" using c0 by (simp add: available_cols_def)
    from False have "\<not> (\<exists>s. getcol df c = Inr s)" using getcol_Inr_columns by blast
    then have fc: "file_col df c = replicate (nrows df) NA"
      by (cases "getcol df c") (simp_all add: file_col_def)
    from f c a have "getcol ?d c = Inr (na_column d0)" by blast
    with fc n0 show ?thesis by (simp add: na_column_def)
  qed
  with rec f n0 show ?thesis by auto
qed

lemma to_numeric_vals: "to_numeric P (map_series f s) = to_numeric P (Plain (f (vals s)))"
  by (simp add: to_numeric_def vals_map_series)

lemma to_timedelta_vals: "to_timedelta P (map_series f s) = to_timedelta P (Plain (f (vals s)))"
  by (simp add: to_timedelta_def vals_map_series)

lemma normalize_cols:
  "\<exists>d. normalize P fid df = Inr d
       \<and> nrows d = length (filter id (take (nrows df) (date_mask P df)))
       \<and> getcol d ''flight_id'' = Inr (Plain (mask_list (date_mask P df) (replicate (nrows df) (Str fid))))
       \<and> getcol d ''date'' = Inr (Plain (mask_list (date_mask P df) (parsed_dates P df)))
       \<and> (\<forall>c \<in> set required_cols. \<exists>s. getcol d c = Inr s \<and> vals s = map (col_conversion P c) (kept P df c))"
proof -
  from reconcile_cols [of df] obtain d0 where
    rec: "reconcile df = Inr d0" and n0: "nrows d0 = nrows df" and
    g0: "\<forall>c \<in> set required_cols. \<exists>s. getcol d0 c = Inr s \<and> vals s = file_col df c" by blast
  have ex: "\<exists>s. getcol d0 c = Inr s \<and> vals s = file_col df c" if "c \<in> set required_cols" for c
    using g0 that by blast
  obtain cd where cd: "getcol d0 ''clock.currentDate'' = Inr cd" "vals cd = file_col df ''clock.currentDate''"
    using ex [of "''clock.currentDate''"] by (auto simp: required_cols_def)
  obtain ct where ct: "getcol d0 ''clock.currentTime'' = Inr ct"
    using ex [of "''clock.currentTime''"] by (auto simp: required_cols_def)
  obtain c1 where c1: "getcol d0 ''flightDistance'' = Inr c1" "vals c1 = file_col df ''flightDistance''"
    using ex [of "''flightDistance''"] by (auto simp: required_cols_def)
  obtain c2 where c2: "getcol d0 ''altitudeRelative'' = Inr c2" "vals c2 = file_col df ''altitudeRelative''"
    using ex [of "''altitudeRelative''"] by (auto simp: required_cols_def)
  obtain c3 where c3: "getcol d0 ''groundSpeed'' = Inr c3" "vals c3 = file_col df ''groundSpeed''"
    using ex [of "''groundSpeed''"] by (auto simp: required_cols_def)
  obtain c4 where c4: "getcol d0 ''airSpeed'' = Inr c4" "vals c4 = file_col df ''airSpeed''"
    using ex [of "''airSpeed''"] by (auto simp: required_cols_def)
  obtain c5 where c5: "getcol d0 ''battery0.percentRemaining'' = Inr c5"
      "vals c5 = file_col df ''battery0.percentRemaining''"
    using ex [of "''battery0.percentRemaining''"] by (auto simp: required_cols_def)
  obtain c6 where c6: "getcol d0 ''battery0.instantPower'' = Inr c6"
      "vals c6 = file_col df ''battery0.instantPower''"
    using ex [of "''battery0.instantPower''"] by (auto simp: required_cols_def)
  obtain ft where ft: "getcol d0 ''flightTime'' = Inr ft" "vals ft = file_col df ''flightTime''"
    using ex [of "''flightTime''"] by (auto simp: required_cols_def)
  define m where "m = date_mask P df"
  have dt: "to_datetime P cd = Plain (parsed_dates P df)"
    using cd by (simp add: to_datetime_def parsed_dates_def)
  have nm: "notna (to_datetime P cd) = m"
    by (simp add: dt notna_def m_def date_mask_def)
  define df3 where "df3 = setcol (setcol (setcol d0 ''flight_id'' (Plain (replicate (nrows d0) (Str fid))))
      ''date'' (to_datetime P cd)) ''time'' (to_time P ct)"
  have ad: "add_derived P fid d0 = Inr df3"
    by (simp add: add_derived_def Let_def getcol_setcol cd ct ebind_Inr df3_def)
  define df4 where "df4 = filter_rows df3 m"
  have di: "drop_invalid df3 = Inr df4"
    by (simp add: drop_invalid_def df3_def getcol_setcol ebind_Inr nm df4_def)
  have g3: "getcol df3 c = getcol d0 c" if "c \<in> set required_cols" for c
    using that by (auto simp: df3_def getcol_setcol required_cols_def)
  have g4: "getcol df4 c = Inr (map_series (mask_list m) s)" if "getcol df3 c = Inr s" for c s
    using that by (simp add: df4_def getcol_filter_rows)
  define k where "k = (\<lambda>s. to_numeric P (map_series (mask_list m) s))"
  define df5 where "df5 = setcol (setcol (setcol (setcol (setcol (setcol df4
      ''flightDistance'' (k c1)) ''altitudeRelative'' (k c2)) ''groundSpeed'' (k c3))
      ''airSpeed'' (k c4)) ''battery0.percentRemaining'' (k c5)) ''battery0.instantPower'' (k c6)"
  have q: "getcol df4 ''flightDistance'' = Inr (map_series (mask_list m) c1)"
      "getcol df4 ''altitudeRelative'' = Inr (map_series (mask_list m) c2)"
      "getcol df4 ''groundSpeed'' = Inr (map_series (mask_list m) c3)"
      "getcol df4 ''airSpeed'' = Inr (map_series (mask_list m) c4)"
      "getcol df4 ''battery0.percentRemaining'' = Inr (map_series (mask_list m) c5)"
      "getcol df4 ''battery0.instantPower'' = Inr (map_series (mask_list m) c6)"
      "getcol df4 ''flightTime'' = Inr (map_series (mask_list m) ft)"
    using g3 c1 c2 c3 c4 c5 c6 ft by (simp_all add: g4 required_cols_def)
  have cn: "convert_numeric P numeric_cols df4 = Inr df5"
    by (simp add: numeric_cols_def getcol_setcol q ebind_Inr df5_def k_def)
  define d where "d = setcol df5 ''flightTime'' (to_timedelta P (map_series (mask_list m) ft))"
  have cv: "convert_types P df4 = Inr d"
    by (simp add: convert_types_def cn ebind_Inr df5_def getcol_setcol q d_def)
  have nz: "normalize P fid df = Inr d"
    by (simp add: normalize_def rec ad di cv ebind_Inr)
  have nr: "nrows d = length (filter id (take (nrows df) m))"
    by (simp add: d_def df5_def nrows_setcol df4_def nrows_filter_rows df3_def n0)
  have gf: "getcol d ''flight_id'' = Inr (Plain (mask_list m (replicate (nrows df) (Str fid))))"
    by (simp add: d_def df5_def getcol_setcol df4_def getcol_filter_rows df3_def n0)
  have gd: "getcol d ''date'' = Inr (Plain (mask_list m (parsed_dates P df)))"
    by (simp add: d_def df5_def getcol_setcol df4_def getcol_filter_rows df3_def dt)
  have gr: "\<exists>s. getcol d c = Inr s \<and> vals s = map (col_conversion P c) (kept P df c)"
    if c: "c \<in> set required_cols" for c
  proof -
    from ex [OF c] obtain s where s: "getcol d0 c = Inr s" "vals s = file_col df c" by blast
    have s4: "getcol df4 c = Inr (map_series (mask_list m) s)"
      using g3 [OF c] s by (simp add: g4)
    have kv: "vals (k x) = map (numeric_cell P) (mask_list m (vals x))" for x
      by (simp add: k_def to_numeric_def vals_map_series)
    consider (num) "c \<in> set numeric_cols" | (ftc) "c = ''flightTime''"
      | (other) "c \<notin> set numeric_cols" "c \<noteq> ''flightTime''" by blast
    then show ?thesis
    proof cases
      case num
      have kx: "getcol d ''flightDistance'' = Inr (k c1)" "getcol d ''altitudeRelative'' = Inr (k c2)"
        "getcol d ''groundSpeed'' = Inr (k c3)" "getcol d ''airSpeed'' = Inr (k c4)"
        "getcol d ''battery0.percentRemaining'' = Inr (k c5)"
        "getcol d ''battery0.instantPower'' = Inr (k c6)"
        by (simp_all add: d_def df5_def getcol_setcol)
      from num have "c = ''flightDistance'' \<or> c = ''altitudeRelative'' \<or> c = ''groundSpeed''
          \<or> c = ''airSpeed'' \<or> c = ''battery0.percentRemaining'' \<or> c = ''battery0.instantPower''"
        by (simp add: numeric_cols_def)
      then have "getcol d c = Inr (k s)"
      proof (elim disjE)
        assume e: "c = ''flightDistance''"
        with s c1 have "s = c1" by simp
        with e kx show ?thesis by simp
      next
        assume e: "c = ''altitudeRelative''"
        with s c2 have "s = c2" by simp
        with e kx show ?thesis by simp
      next
        assume e: "c = ''groundSpeed''"
        with s c3 have "s = c3" by simp
        with e kx show ?thesis by simp
      next
        assume e: "c = ''airSpeed''"
        with s c4 have "s = c4" by simp
        with e kx show ?thesis by simp
      next
        assume e: "c = ''battery0.percentRemaining''"
        with s c5 have "s = c5" by simp
        with e kx show ?thesis by simp
      next
        assume e: "c = ''battery0.instantPower''"
        with s c6 have "s = c6" by simp
        with e kx show ?thesis by simp
      qed
      with num s show ?thesis
        by (simp add: kv col_conversion_def kept_def m_def)
    next
      case ftc
      with s ft have "s = ft" by simp
      with ftc have "getcol d c = Inr (to_timedelta P (map_series (mask_list m) s))"
        by (simp add: d_def getcol_setcol)
      with ftc s show ?thesis
        by (simp add: to_timedelta_def vals_map_series col_conversion_def kept_def m_def numeric_cols_def)
    next
      case other
      then have "getcol d c = getcol df4 c"
        by (simp add: d_def df5_def getcol_setcol numeric_cols_def)
      with other s4 s show ?thesis
        by (simp add: vals_map_series col_conversion_def kept_def m_def)
    qed
  qed
  from nz nr gf gd gr show ?thesis unfolding m_def by blast
qed

section \<open>Reductions against their mathematical meaning\<close>

lemma dropna_nums: "set xs \<subseteq> insert NA (range Num) \<Longrightarrow> dropna xs = map Num (numbers xs)"
  by (induction xs) (auto simp: dropna_def numbers_def)

lemma dropna_deltas: "set xs \<subseteq> insert NA (range Delta) \<Longrightarrow> dropna xs = map Delta (durations xs)"
  by (induction xs) (auto simp: dropna_def durations_def)

lemma fold_cell_max_num: "fold cell_max (map Num ys) (Num y) = Num (fold max ys y)"
  by (induction ys arbitrary: y) simp_all

lemma fold_cell_min_num: "fold cell_min (map Num ys) (Num y) = Num (fold min ys y)"
  by (induction ys arbitrary: y) simp_all

lemma fold_cell_add_num: "fold cell_add (map Num ys) (Num y) = Num (sum_list ys + y)"
  by (induction ys arbitrary: y) (simp_all add: algebra_simps)

lemma fold_cell_max_delta: "fold cell_max (map Delta ys) (Delta y) = Delta (fold max ys y)"
  by (induction ys arbitrary: y) simp_all

lemma fold_cell_add_delta: "fold cell_add (map Delta ys) (Delta y) = Delta (sum_list ys + y)"
  by (induction ys arbitrary: y) (simp_all add: algebra_simps)

lemma series_max_nums:
  assumes "set xs \<subseteq> insert NA (range Num)" and "vals s = xs"
  shows "series_max s = num_or_na (spec_max (numbers xs))"
proof (cases "numbers xs")
  case Nil
  with assms show ?thesis
    by (simp add: series_max_def dropna_nums spec_max_def num_or_na_def)
next
  case (Cons y ys)
  have "fold max ys y = Max (set (y # ys))" by (simp only: Max.set_eq_fold)
  with Cons assms show ?thesis
    by (simp add: series_max_def dropna_nums spec_max_def num_or_na_def fold_cell_max_num)
qed

lemma series_min_nums:
  assumes "set xs \<subseteq> insert NA (range Num)" and "vals s = xs"
  shows "series_min s = num_or_na (spec_min (numbers xs))"
proof (cases "numbers xs")
  case Nil
  with assms show ?thesis
    by (simp add: series_min_def dropna_nums spec_min_def num_or_na_def)
next
  case (Cons y ys)
  have "fold min ys y = Min (set (y # ys))" by (simp only: Min.set_eq_fold)
  with Cons assms show ?thesis
    by (simp add: series_min_def dropna_nums spec_min_def num_or_na_def fold_cell_min_num)
qed

lemma series_mean_nums:
  assumes "set xs \<subseteq> insert NA (range Num)" and "vals s = xs"
  shows "series_mean s = num_or_na (spec_mean (numbers xs))"
proof (cases "numbers xs")
  case Nil
  with assms show ?thesis
    by (simp add: series_mean_def dropna_nums spec_mean_def num_or_na_def)
next
  case (Cons y ys)
  with assms show ?thesis
    by (simp add: series_mean_def dropna_nums spec_mean_def num_or_na_def fold_cell_add_num
        add.commute)
qed

lemma series_max_deltas:
  assumes "set xs \<subseteq> insert NA (range Delta)" and "vals s = xs"
  shows "series_max s = delta_or_na (spec_max (durations xs))"
proof (cases "durations xs")
  case Nil
  with assms show ?thesis
    by (simp add: series_max_def dropna_deltas spec_max_def delta_or_na_def)
next
  case (Cons y ys)
  have "fold max ys y = Max (set (y # ys))" by (simp only: Max.set_eq_fold)
  with Cons assms show ?thesis
    by (simp add: series_max_def dropna_deltas spec_max_def delta_or_na_def fold_cell_max_delta)
qed

lemma series_mean_deltas:
  assumes "set xs \<subseteq> insert NA (range Delta)" and "vals s = xs"
  shows "series_mean s = delta_or_na (spec_mean (durations xs))"
proof (cases "durations xs")
  case Nil
  with assms show ?thesis
    by (simp add: series_mean_def dropna_deltas spec_mean_def delta_or_na_def)
next
  case (Cons y ys)
  with assms show ?thesis
    by (simp add: series_mean_def dropna_deltas spec_mean_def delta_or_na_def fold_cell_add_delta
        add.commute)
qed

lemma py_round2_num_or_na: "py_round2 (num_or_na r) = num_or_na (map_option round2 r)"
  by (cases r) (simp_all add: num_or_na_def)

lemma numeric_cell_range: "numeric_cell P c \<in> insert NA (range Num)"
  by (auto simp: numeric_cell_def split: cell.splits option.splits)

lemma timedelta_cell_range: "timedelta_cell P c \<in> insert NA (range Delta)"
  by (auto simp: timedelta_cell_def split: cell.splits option.splits)

lemma normalized_col_nums:
  "c \<in> set numeric_cols \<Longrightarrow> set (normalized_col P df c) \<subseteq> insert NA (range Num)"
  using numeric_cell_range by (auto simp: normalized_col_def col_conversion_def)

lemma normalized_col_deltas:
  "set (normalized_col P df ''flightTime'') \<subseteq> insert NA (range Delta)"
  using timedelta_cell_range
  by (auto simp: normalized_col_def col_conversion_def numeric_cols_def)

section \<open>The summary of one file\<close>

lemma summary_spec:
  "\<exists>d sm. normalize P fid df = Inr d \<and> summary fid d = Inr sm
     \<and> getcol d ''flight_id'' = Inr (Plain (mask_list (date_mask P df) (replicate (nrows df) (Str fid))))
     \<and> (\<exists>g. getcol d ''gps.lat'' = Inr g) \<and> (\<exists>g. getcol d ''gps.lon'' = Inr g)
     \<and> sm =
       [(''flight_id'', Str fid),
        (''flight_time'', delta_or_na (spec_max (durations_of P df ''flightTime''))),
        (''flight_distance'', num_or_na (spec_max (numbers_of P df ''flightDistance''))),
        (''max_altitude'', num_or_na (spec_max (numbers_of P df ''altitudeRelative''))),
        (''max_ground_speed'', num_or_na (spec_max (numbers_of P df ''groundSpeed''))),
        (''max_air_speed'', num_or_na (spec_max (numbers_of P df ''airSpeed''))),
        (''min_battery'', num_or_na (spec_min (numbers_of P df ''battery0.percentRemaining''))),
        (''avg_power'', num_or_na (map_option round2 (spec_mean (numbers_of P df ''battery0.instantPower'')))),
        (''avg_altitude'', num_or_na (map_option round2 (spec_mean (numbers_of P df ''altitudeRelative'')))),
        (''avg_flight_time'', delta_or_na (spec_mean (durations_of P df ''flightTime''))),
        (''avg_flight_distance'', num_or_na (map_option round2 (spec_mean (numbers_of P df ''flightDistance'')))),
        (''avg_ground_speed'', num_or_na (map_option round2 (spec_mean (numbers_of P df ''groundSpeed'')))),
        (''avg_air_speed'', num_or_na (map_option round2 (spec_mean (numbers_of P df ''airSpeed'')))),
        (''avg_battery_remaining'',
           num_or_na (map_option round2 (spec_mean (numbers_of P df ''battery0.percentRemaining''))))]"
proof -
  from normalize_cols [of P fid df] obtain d where
    nz: "normalize P fid df = Inr d" and
    gf: "getcol d ''flight_id'' = Inr (Plain (mask_list (date_mask P df) (replicate (nrows df) (Str fid))))" and
    gr: "\<forall>c \<in> set required_cols. \<exists>s. getcol d c = Inr s \<and> vals s = normalized_col P df c"
    unfolding normalized_col_def by blast
  have ex: "\<exists>s. getcol d c = Inr s \<and> vals s = normalized_col P df c" if "c \<in> set required_cols" for c
    using gr that by blast
  obtain ft where ft: "getcol d ''flightTime'' = Inr ft" "vals ft = normalized_col P df ''flightTime''"
    using ex [of "''flightTime''"] by (auto simp: required_cols_def)
  obtain fd where fd: "getcol d ''flightDistance'' = Inr fd" "vals fd = normalized_col P df ''flightDistance''"
    using ex [of "''flightDistance''"] by (auto simp: required_cols_def)
  obtain al where al: "getcol d ''altitudeRelative'' = Inr al" "vals al = normalized_col P df ''altitudeRelative''"
    using ex [of "''altitudeRelative''"] by (auto simp: required_cols_def)
  obtain gs where gs: "getcol d ''groundSpeed'' = Inr gs" "vals gs = normalized_col P df ''groundSpeed''"
    using ex [of "''groundSpeed''"] by (auto simp: required_cols_def)
  obtain as where as: "getcol d ''airSpeed'' = Inr as" "vals as = normalized_col P df ''airSpeed''"
    using ex [of "''airSpeed''"] by (auto simp: required_cols_def)
  obtain bp where bp: "getcol d ''battery0.percentRemaining'' = Inr bp"
      "vals bp = normalized_col P df ''battery0.percentRemaining''"
    using ex [of "''battery0.percentRemaining''"] by (auto simp: required_cols_def)
  obtain ip where ip: "getcol d ''battery0.instantPower'' = Inr ip"
      "vals ip = normalized_col P df ''battery0.instantPower''"
    using ex [of "''battery0.instantPower''"] by (auto simp: required_cols_def)
  have lat: "\<exists>g. getcol d ''gps.lat'' = Inr g" using ex [of "''gps.lat''"] by (auto simp: required_cols_def)
  have lon: "\<exists>g. getcol d ''gps.lon'' = Inr g" using ex [of "''gps.lon''"] by (auto simp: required_cols_def)
  have n: "''flightDistance'' \<in> set numeric_cols" "''altitudeRelative'' \<in> set numeric_cols"
    "''groundSpeed'' \<in> set numeric_cols" "''airSpeed'' \<in> set numeric_cols"
    "''battery0.percentRemaining'' \<in> set numeric_cols" "''battery0.instantPower'' \<in> set numeric_cols"
    by (simp_all add: numeric_cols_def)
  note nn = n [THEN normalized_col_nums, of P df]
  have r:
    "series_max ft = delta_or_na (spec_max (durations_of P df ''flightTime''))"
    "series_mean ft = delta_or_na (spec_mean (durations_of P df ''flightTime''))"
    "series_max fd = num_or_na (spec_max (numbers_of P df ''flightDistance''))"
    "series_mean fd = num_or_na (spec_mean (numbers_of P df ''flightDistance''))"
    "series_max al = num_or_na (spec_max (numbers_of P df ''altitudeRelative''))"
    "series_mean al = num_or_na (spec_mean (numbers_of P df ''altitudeRelative''))"
    "series_max gs = num_or_na (spec_max (numbers_of P df ''groundSpeed''))"
    "series_mean gs = num_or_na (spec_mean (numbers_of P df ''groundSpeed''))"
    "series_max as = num_or_na (spec_max (numbers_of P df ''airSpeed''))"
    "series_mean as = num_or_na (spec_mean (numbers_of P df ''airSpeed''))"
    "series_min bp = num_or_na (spec_min (numbers_of P df ''battery0.percentRemaining''))"
    "series_mean bp = num_or_na (spec_mean (numbers_of P df ''battery0.percentRemaining''))"
    "series_mean ip = num_or_na (spec_mean (numbers_of P df ''battery0.instantPower''))"
    unfolding numbers_of_def durations_of_def
    by (rule series_max_deltas [OF normalized_col_deltas ft(2)]
             series_mean_deltas [OF normalized_col_deltas ft(2)]
             series_max_nums [OF nn(1) fd(2)] series_mean_nums [OF nn(1) fd(2)]
             series_max_nums [OF nn(2) al(2)] series_mean_nums [OF nn(2) al(2)]
             series_max_nums [OF nn(3) gs(2)] series_mean_nums [OF nn(3) gs(2)]
             series_max_nums [OF nn(4) as(2)] series_mean_nums [OF nn(4) as(2)]
             series_min_nums [OF nn(5) bp(2)] series_mean_nums [OF nn(5) bp(2)]
             series_mean_nums [OF nn(6) ip(2)])+
  have "summary fid d = Inr
       [(''flight_id'', Str fid),
        (''flight_time'', series_max ft),
        (''flight_distance'', series_max fd),
        (''max_altitude'', series_max al),
        (''max_ground_speed'', series_max gs),
        (''max_air_speed'', series_max as),
        (''min_battery'', series_min bp),
        (''avg_power'', py_round2 (series_mean ip)),
        (''avg_altitude'', py_round2 (series_mean al)),
        (''avg_flight_time'', series_mean ft),
        (''avg_flight_distance'', py_round2 (series_mean fd)),
        (''avg_ground_speed'', py_round2 (series_mean gs)),
        (''avg_air_speed'', py_round2 (series_mean as)),
        (''avg_battery_remaining'', py_round2 (series_mean bp))]"
    by (simp add: summary_def ebind_Inr ft fd al gs as bp ip)
  then show ?thesis
    using nz gf lat lon by (simp add: r py_round2_num_or_na)
qed

section \<open>Claims about one flight\<close>

lemma rint_close: "\<bar>of_int (rint y) - y\<bar> \<le> 1 / 2"
proof -
  have "of_int \<lfloor>y\<rfloor> \<le> y" and "y < of_int \<lfloor>y\<rfloor> + 1" by linarith+
  then show ?thesis by (auto simp: rint_def Let_def)
qed

lemma round2_props: "(\<exists>k::int. round2 x = of_int k / 100) \<and> \<bar>round2 x - x\<bar> \<le> 1 / 200"
proof
  show "\<exists>k::int. round2 x = of_int k / 100" by (auto simp: round2_def)
  have "\<bar>of_int (rint (x * 100)) - x * 100\<bar> \<le> 1 / 2" by (rule rint_close)
  then have "\<bar>(of_int (rint (x * 100)) - x * 100) / 100\<bar> \<le> (1 / 2) / 100"
    by (simp only: abs_divide) (simp add: divide_right_mono)
  then show "\<bar>round2 x - x\<bar> \<le> 1 / 200" by (simp add: round2_def diff_divide_distrib)
qed

text \<open>
  Claim C2.  For every file and every parser set, normalising the file and summarising its
  rows succeeds, and the summary is, key by key: the flight id; \<open>flight_time\<close> the greatest
  duration of \<open>flightTime\<close>; \<open>flight_distance\<close>, \<open>max_altitude\<close>, \<open>max_ground_speed\<close>,
  \<open>max_air_speed\<close> the greatest number of their columns; \<open>min_battery\<close> the least battery
  percentage; the six numeric averages the arithmetic mean of the numbers of their column
  rounded to two decimals; \<open>avg_flight_time\<close> the mean duration, not rounded.  A statistic
  of a column with no value is missing.  Rounding gives a multiple of 0.01 at most 0.005
  away.  Numbers are exact rationals here.
\<close>

theorem summary_statistics:
  "(\<exists>d. normalize P fid df = Inr d \<and> summary fid d = Inr
       [(''flight_id'', Str fid),
        (''flight_time'', delta_or_na (spec_max (durations_of P df ''flightTime''))),
        (''flight_distance'', num_or_na (spec_max (numbers_of P df ''flightDistance''))),
        (''max_altitude'', num_or_na (spec_max (numbers_of P df ''altitudeRelative''))),
        (''max_ground_speed'', num_or_na (spec_max (numbers_of P df ''groundSpeed''))),
        (''max_air_speed'', num_or_na (spec_max (numbers_of P df ''airSpeed''))),
        (''min_battery'', num_or_na (spec_min (numbers_of P df ''battery0.percentRemaining''))),
        (''avg_power'', num_or_na (map_option round2 (spec_mean (numbers_of P df ''battery0.instantPower'')))),
        (''avg_altitude'', num_or_na (map_option round2 (spec_mean (numbers_of P df ''altitudeRelative'')))),
        (''avg_flight_time'', delta_or_na (spec_mean (durations_of P df ''flightTime''))),
        (''avg_flight_distance'', num_or_na (map_option round2 (spec_mean (numbers_of P df ''flightDistance'')))),
        (''avg_ground_speed'', num_or_na (map_option round2 (spec_mean (numbers_of P df ''groundSpeed'')))),
        (''avg_air_speed'', num_or_na (map_option round2 (spec_mean (numbers_of P df ''airSpeed'')))),
        (''avg_battery_remaining'',
           num_or_na (map_option round2 (spec_mean (numbers_of P df ''battery0.percentRemaining''))))])
   \<and> (\<exists>k::int. round2 x = of_int k / 100) \<and> \<bar>round2 x - x\<bar> \<le> 1 / 200"
  using summary_spec [of P fid df] round2_props [of x] by blast

lemma file_A_ground_speed: "numbers_of example_parsers file_A ''groundSpeed'' = [5, 7]"
  by (simp add: numbers_of_def normalized_col_def kept_def date_mask_def parsed_dates_def
      file_col_def getcol_def file_A_def to_datetime_def datetime_cell_def stamp_or_na_def
      mask_list_def col_conversion_def numeric_cols_def numeric_cell_def numbers_def)

theorem summary_statistics_witness:
  "\<exists>d sm. normalize example_parsers ''flight_1'' file_A = Inr d \<and> summary ''flight_1'' d = Inr sm
     \<and> map_of sm ''max_ground_speed'' = Some (Num 7)
     \<and> map_of sm ''avg_ground_speed'' = Some (Num 6)"
proof -
  have m: "spec_max [5, 7 :: rat] = Some 7" by (simp add: spec_max_def)
  have a: "map_option round2 (spec_mean [5, 7 :: rat]) = Some 6"
    by (simp add: spec_mean_def round2_def rint_def)
  from summary_statistics [of example_parsers "''flight_1''" file_A 0]
  show ?thesis by (auto simp: file_A_ground_speed m a num_or_na_def)
qed


lemma numbers_all_missing: "\<forall>x \<in> set xs. x = NA \<Longrightarrow> numbers xs = [] \<and> durations xs = []"
  by (induction xs) (auto simp: numbers_def durations_def)

lemma absent_column_missing:
  assumes "c \<notin> set (columns df)"
  shows "\<forall>x \<in> set (normalized_col P df c). x = NA"
proof -
  from assms have "\<not> (\<exists>s. getcol df c = Inr s)" using getcol_Inr_columns by blast
  then have "file_col df c = replicate (nrows df) NA"
    by (cases "getcol df c") (simp_all add: file_col_def)
  then have "\<forall>x \<in> set (kept P df c). x = NA"
    by (auto simp: kept_def mask_list_def dest!: set_zip_rightD)
  then show ?thesis
    by (auto simp: normalized_col_def col_conversion_def numeric_cell_def timedelta_cell_def)
qed

text \<open>
  Claim C5.  For every file, the summary of the flight is produced, and each of its
  thirteen statistics is the missing marker whenever the column it is derived from has no
  value in the normalised rows of the flight: every cell missing or unparsable, the column
  absent from the file (then filled with the missing marker), or no row left.  The result is
  a value of the summary, not an error, and is not the number zero.
\<close>

theorem missing_column_statistics:
  "\<exists>d sm. normalize P fid df = Inr d \<and> summary fid d = Inr sm
     \<and> (\<forall>(k, c) \<in> set derived_stats.
           (\<forall>x \<in> set (normalized_col P df c). x = NA) \<longrightarrow> map_of sm k = Some NA \<and> NA \<noteq> Num 0)
     \<and> (\<forall>(k, c) \<in> set derived_stats. c \<notin> set (columns df) \<longrightarrow> map_of sm k = Some NA)"
proof -
  from summary_spec [of P fid df] obtain d sm where
    nz: "normalize P fid df = Inr d" and sm: "summary fid d = Inr sm" and
    eq: "sm =
       [(''flight_id'', Str fid),
        (''flight_time'', delta_or_na (spec_max (durations_of P df ''flightTime''))),
        (''flight_distance'', num_or_na (spec_max (numbers_of P df ''flightDistance''))),
        (''max_altitude'', num_or_na (spec_max (numbers_of P df ''altitudeRelative''))),
        (''max_ground_speed'', num_or_na (spec_max (numbers_of P df ''groundSpeed''))),
        (''max_air_speed'', num_or_na (spec_max (numbers_of P df ''airSpeed''))),
        (''min_battery'', num_or_na (spec_min (numbers_of P df ''battery0.percentRemaining''))),
        (''avg_power'', num_or_na (map_option round2 (spec_mean (numbers_of P df ''battery0.instantPower'')))),
        (''avg_altitude'', num_or_na (map_option round2 (spec_mean (numbers_of P df ''altitudeRelative'')))),
        (''avg_flight_time'', delta_or_na (spec_mean (durations_of P df ''flightTime''))),
        (''avg_flight_distance'', num_or_na (map_option round2 (spec_mean (numbers_of P df ''flightDistance'')))),
        (''avg_ground_speed'', num_or_na (map_option round2 (spec_mean (numbers_of P df ''groundSpeed'')))),
        (''avg_air_speed'', num_or_na (map_option round2 (spec_mean (numbers_of P df ''airSpeed'')))),
        (''avg_battery_remaining'',
           num_or_na (map_option round2 (spec_mean (numbers_of P df ''battery0.percentRemaining''))))]"
    by blast
  have e: "numbers_of P df c = [] \<and> durations_of P df c = []"
    if "\<forall>x \<in> set (normalized_col P df c). x = NA" for c
    using numbers_all_missing [OF that] by (simp add: numbers_of_def durations_of_def)
  have z: "spec_max [] = None" "spec_min [] = None" "spec_mean [] = None"
    "num_or_na None = NA" "delta_or_na None = NA"
    by (simp_all add: spec_max_def spec_min_def spec_mean_def num_or_na_def delta_or_na_def)
  have one: "\<forall>(k, c) \<in> set derived_stats.
      (\<forall>x \<in> set (normalized_col P df c). x = NA) \<longrightarrow> map_of sm k = Some NA \<and> NA \<noteq> Num 0"
    unfolding derived_stats_def eq using e by (simp add: z)
  have two: "\<forall>(k, c) \<in> set derived_stats. c \<notin> set (columns df) \<longrightarrow> map_of sm k = Some NA"
    using one absent_column_missing [of _ df P] by fastforce
  from nz sm one two show ?thesis by blast
qed

theorem missing_column_statistics_witness:
  "(''max_air_speed'', ''airSpeed'') \<in> set derived_stats \<and> ''airSpeed'' \<notin> set (columns file_A)
   \<and> (\<exists>d sm. normalize example_parsers ''flight_1'' file_A = Inr d \<and> summary ''flight_1'' d = Inr sm
          \<and> map_of sm ''max_air_speed'' = Some NA \<and> map_of sm ''avg_air_speed'' = Some NA)"
proof -
  have a: "''airSpeed'' \<notin> set (columns file_A)" by (simp add: file_A_def columns_def)
  have b: "(''max_air_speed'', ''airSpeed'') \<in> set derived_stats"
    "(''avg_air_speed'', ''airSpeed'') \<in> set derived_stats"
    by (simp_all add: derived_stats_def)
  from missing_column_statistics [of example_parsers "''flight_1''" file_A] obtain d sm where
    "normalize example_parsers ''flight_1'' file_A = Inr d" "summary ''flight_1'' d = Inr sm"
    "\<forall>(k, c) \<in> set derived_stats. c \<notin> set (columns file_A) \<longrightarrow> map_of sm k = Some NA"
    by blast
  with a b show ?thesis by blast
qed


lemma mask_list_map: "mask_list (map f ds) xs = map snd [p \<leftarrow> zip ds xs. f (fst p)]"
proof (induction ds arbitrary: xs)
  case Nil
  then show ?case by (simp add: mask_list_def)
next
  case (Cons d ds)
  then show ?case by (cases xs) (simp_all add: mask_list_def)
qed

lemma mask_list_self: "mask_list (map f xs) xs = filter f xs"
  by (induction xs) (simp_all add: mask_list_def)

lemma datetime_cell_range: "datetime_cell P col c = NA \<or> (\<exists>t. datetime_cell P col c = Stamp t)"
  by (auto simp: datetime_cell_def stamp_or_na_def split: cell.splits option.splits)

text \<open>
  Claim C6.  For every file, normalisation succeeds, and the \<open>date\<close> column of the
  normalised rows is the list of the dates that parsed, in their order: no cell of it is
  missing, each is a timestamp.  Every required column of the result holds, converted to
  its type, the cells of the file's column in exactly the rows whose date parsed, in the
  order of the file: the rows with an unparsable date are gone and no other row is.
\<close>

theorem surviving_rows_dated:
  "\<exists>d date. normalize P fid df = Inr d \<and> getcol d ''date'' = Inr date
     \<and> vals date = [c \<leftarrow> parsed_dates P df. c \<noteq> NA]
     \<and> NA \<notin> set (vals date) \<and> (\<forall>c \<in> set (vals date). \<exists>t. c = Stamp t)
     \<and> (\<forall>c \<in> set required_cols. \<exists>s. getcol d c = Inr s
           \<and> vals s = map (col_conversion P c)
                 (map snd [p \<leftarrow> zip (parsed_dates P df) (file_col df c). fst p \<noteq> NA]))"
proof -
  from normalize_cols [of P fid df] obtain d where
    nz: "normalize P fid df = Inr d" and
    gd: "getcol d ''date'' = Inr (Plain (mask_list (date_mask P df) (parsed_dates P df)))" and
    gr: "\<forall>c \<in> set required_cols. \<exists>s. getcol d c = Inr s \<and> vals s = map (col_conversion P c) (kept P df c)"
    by blast
  let ?dates = "[c \<leftarrow> parsed_dates P df. c \<noteq> NA]"
  have v: "mask_list (date_mask P df) (parsed_dates P df) = ?dates"
    by (simp add: date_mask_def mask_list_self)
  have st: "\<forall>c \<in> set ?dates. \<exists>t. c = Stamp t"
    using datetime_cell_range by (fastforce simp: parsed_dates_def to_datetime_def)
  have k: "kept P df c = map snd [p \<leftarrow> zip (parsed_dates P df) (file_col df c). fst p \<noteq> NA]" for c
    by (simp add: kept_def date_mask_def mask_list_map)
  from nz gd v st gr show ?thesis by (simp add: k)
qed

lemma file_undated_dates: "parsed_dates example_parsers file_undated = [NA]"
  by (simp add: parsed_dates_def file_col_def getcol_def file_undated_def to_datetime_def
      datetime_cell_def stamp_or_na_def)

lemma file_A_dates:
  "parsed_dates example_parsers file_A = [Stamp (DateTime 2024 1 10 0 0 0), Stamp (DateTime 2024 1 11 0 0 0)]"
  by (simp add: parsed_dates_def file_col_def getcol_def file_A_def to_datetime_def
      datetime_cell_def stamp_or_na_def)

theorem surviving_rows_dated_witness:
  "''groundSpeed'' \<in> set required_cols
   \<and> (\<exists>d date s. normalize example_parsers ''flight_1'' file_A = Inr d \<and> getcol d ''date'' = Inr date
          \<and> vals date = [Stamp (DateTime 2024 1 10 0 0 0), Stamp (DateTime 2024 1 11 0 0 0)]
          \<and> getcol d ''groundSpeed'' = Inr s \<and> vals s = [Num 5, Num 7])
   \<and> (\<exists>d date s. normalize example_parsers ''flight_1'' file_undated = Inr d \<and> getcol d ''date'' = Inr date
          \<and> vals date = [] \<and> getcol d ''groundSpeed'' = Inr s \<and> vals s = [])"
proof -
  have r: "''groundSpeed'' \<in> set required_cols" by (simp add: required_cols_def)
  have a: "file_col file_A ''groundSpeed'' = [Num 5, Num 7]"
    "file_col file_undated ''groundSpeed'' = [Num 4]"
    by (simp_all add: file_col_def getcol_def file_A_def file_undated_def)
  have c: "col_conversion example_parsers ''groundSpeed'' (Num x) = Num x" for x
    by (simp add: col_conversion_def numeric_cols_def numeric_cell_def)
  from surviving_rows_dated [of example_parsers "''flight_1''" file_A] r
  have one: "\<exists>d date s. normalize example_parsers ''flight_1'' file_A = Inr d \<and> getcol d ''date'' = Inr date
          \<and> vals date = [Stamp (DateTime 2024 1 10 0 0 0), Stamp (DateTime 2024 1 11 0 0 0)]
          \<and> getcol d ''groundSpeed'' = Inr s \<and> vals s = [Num 5, Num 7]"
    by (fastforce simp: file_A_dates a c)
  from surviving_rows_dated [of example_parsers "''flight_1''" file_undated] r
  have two: "\<exists>d date s. normalize example_parsers ''flight_1'' file_undated = Inr d \<and> getcol d ''date'' = Inr date
          \<and> vals date = [] \<and> getcol d ''groundSpeed'' = Inr s \<and> vals s = []"
    by (fastforce simp: file_undated_dates a c)
  from r one two show ?thesis by blast
qed


subsection \<open>The load loop and the number of flights\<close>

lemma str_nat_nonempty: "str_nat n \<noteq> []"
  by (induction n rule: str_nat.induct) (subst str_nat.simps, simp)

lemma digit_char_inj: "a < 10 \<Longrightarrow> b < 10 \<Longrightarrow> digit_char a = digit_char b \<Longrightarrow> a = b"
proof -
  assume a: "a < 10" and b: "b < 10" and e: "digit_char a = digit_char b"
  from e have "of_char (digit_char a) = (of_char (digit_char b) :: nat)" by simp
  with a b show ?thesis by (simp add: digit_char_def)
qed

lemma str_nat_inj: "str_nat n = str_nat m \<Longrightarrow> n = m"
proof (induction n arbitrary: m rule: str_nat.induct)
  case (1 n)
  show ?case
  proof (cases "n < 10")
    case True
    then have n: "str_nat n = [digit_char n]" by (subst str_nat.simps) simp
    show ?thesis
    proof (cases "m < 10")
      case m: True
      then have "str_nat m = [digit_char m]" by (subst str_nat.simps) simp
      with n "1.prems" True m show ?thesis by (auto dest: digit_char_inj)
    next
      case m: False
      then have "str_nat m = str_nat (m div 10) @ [digit_char (m mod 10)]"
        by (subst str_nat.simps) simp
      with n "1.prems" have "str_nat (m div 10) = []" by (cases "str_nat (m div 10)") auto
      with str_nat_nonempty show ?thesis by blast
    qed
  next
    case False
    then have n: "str_nat n = str_nat (n div 10) @ [digit_char (n mod 10)]"
      by (subst str_nat.simps) simp
    show ?thesis
    proof (cases "m < 10")
      case m: True
      then have "str_nat m = [digit_char m]" by (subst str_nat.simps) simp
      with n "1.prems" have "str_nat (n div 10) = []" by (cases "str_nat (n div 10)") auto
      with str_nat_nonempty show ?thesis by blast
    next
      case m: False
      then have "str_nat m = str_nat (m div 10) @ [digit_char (m mod 10)]"
        by (subst str_nat.simps) simp
      with n "1.prems" have e: "str_nat (n div 10) = str_nat (m div 10)"
        and d: "digit_char (n mod 10) = digit_char (m mod 10)" by simp_all
      from "1.IH" [OF False e] have q: "n div 10 = m div 10" .
      from d have r: "n mod 10 = m mod 10"
        using digit_char_inj [of "n mod 10" "m mod 10"] by simp
      from q r show ?thesis by (metis div_mult_mod_eq)
    qed
  qed
qed

lemma flight_id_of_inj: "flight_id_of i = flight_id_of j \<Longrightarrow> i = j"
  using str_nat_inj [of "i + 1" "j + 1"] by (simp add: flight_id_of_def del: str_nat.simps)

lemma process_file_ok:
  "\<exists>sm g d. process_file P i f = Inr (sm, g, d) \<and> map_of sm ''flight_id'' = Some (Str (flight_id_of i))"
proof -
  from summary_spec [of P "flight_id_of i" f] obtain d sm where
    nz: "normalize P (flight_id_of i) f = Inr d" and sm: "summary (flight_id_of i) d = Inr sm" and
    cs: "\<exists>s. getcol d ''flight_id'' = Inr s" "\<exists>g. getcol d ''gps.lat'' = Inr g"
        "\<exists>g. getcol d ''gps.lon'' = Inr g" and
    fi: "map_of sm ''flight_id'' = Some (Str (flight_id_of i))"
    by auto
  from cs have "set [''gps.lat'', ''gps.lon'', ''flight_id''] \<subseteq> set (columns d)"
    by (auto dest: getcol_Inr_columns)
  from select_getcol [OF this] obtain g where "select d [''gps.lat'', ''gps.lon'', ''flight_id''] = Inr g"
    by blast
  with nz sm fi show ?thesis by (simp add: process_file_def ebind_Inr)
qed

lemma load_loop_ids:
  "\<exists>st'. load_loop P i fs st = Inr st'
      \<and> map (\<lambda>r. map_of r ''flight_id'') (flight_summaries st') =
          map (\<lambda>r. map_of r ''flight_id'') (flight_summaries st)
            @ map (\<lambda>j. Some (Str (flight_id_of j))) [i..<i + length fs]"
proof (induction fs arbitrary: i st)
  case Nil
  then show ?case by simp
next
  case (Cons f fs)
  from process_file_ok [of P i f] obtain sm g d where
    p: "process_file P i f = Inr (sm, g, d)" and
    fi: "map_of sm ''flight_id'' = Some (Str (flight_id_of i))" by blast
  let ?st = "st\<lparr>flight_summaries := flight_summaries st @ [sm],
      gps_data := gps_data st @ [g], all_dfs := all_dfs st @ [d]\<rparr>"
  from Cons.IH [of "Suc i" ?st] obtain st' where
    l: "load_loop P (Suc i) fs ?st = Inr st'" and
    m: "map (\<lambda>r. map_of r ''flight_id'') (flight_summaries st') =
          map (\<lambda>r. map_of r ''flight_id'') (flight_summaries ?st)
            @ map (\<lambda>j. Some (Str (flight_id_of j))) [Suc i..<Suc i + length fs]" by blast
  have "load_loop P i (f # fs) st = Inr st'" using p l by (simp add: ebind_Inr)
  moreover have "[i..<i + length (f # fs)] = i # [Suc i..<Suc i + length fs]"
  proof -
    have "i < i + length (f # fs)" by simp
    from upt_conv_Cons [OF this] show ?thesis by simp
  qed
  ultimately show ?case using m fi by simp
qed

lemma map_of_keyed: "map_of (map (\<lambda>k. (k, F k)) ks) c = (if c \<in> set ks then Some (F c) else None)"
  by (induction ks) auto

lemma unique_distinct: "distinct xs \<Longrightarrow> unique xs = xs"
  by (simp add: unique_def distinct_remdups_id)

lemma set_unique: "set (unique xs) = set xs"
  by (simp add: unique_def)

lemma total_flights_count:
  assumes "all_files \<noteq> []"
  shows "script_total_flights P all_files = Inr (length all_files)"
proof -
  let ?n = "length all_files"
  from load_loop_ids [of P 0 all_files "\<lparr>flight_summaries = [], gps_data = [], all_dfs = []\<rparr>"]
  obtain st where l: "load_loop P 0 all_files \<lparr>flight_summaries = [], gps_data = [], all_dfs = []\<rparr> = Inr st"
    and ids: "map (\<lambda>r. map_of r ''flight_id'') (flight_summaries st) =
        map (\<lambda>j. Some (Str (flight_id_of j))) [0..<?n]" by auto
  let ?recs = "flight_summaries st"
  let ?F = "\<lambda>k. Plain (map (\<lambda>r. case map_of r k of None \<Rightarrow> NA | Some v \<Rightarrow> v) ?recs)"
  have len: "length ?recs = ?n" using ids by (metis length_map length_upt minus_nat.diff_0)
  have col: "map (\<lambda>r. case map_of r ''flight_id'' of None \<Rightarrow> NA | Some v \<Rightarrow> v) ?recs =
      map (\<lambda>j. Str (flight_id_of j)) [0..<?n]"
  proof -
    have "map (\<lambda>r. case map_of r ''flight_id'' of None \<Rightarrow> NA | Some v \<Rightarrow> v) ?recs =
        map (\<lambda>x. case x of None \<Rightarrow> NA | Some v \<Rightarrow> v) (map (\<lambda>r. map_of r ''flight_id'') ?recs)"
      by simp
    also have "\<dots> = map (\<lambda>j. Str (flight_id_of j)) [0..<?n]" by (simp only: ids) simp
    finally show ?thesis .
  qed
  have key: "''flight_id'' \<in> set (unique (concat (map (map fst) ?recs)))"
  proof -
    from assms len obtain r rs where r: "?recs = r # rs" by (cases ?recs) auto
    with ids have "map_of r ''flight_id'' \<noteq> None"
      by (cases "[0..<?n]") auto
    then have "''flight_id'' \<in> fst ` set r" by (simp add: map_of_eq_None_iff)
    with r show ?thesis by (auto simp: set_unique)
  qed
  have g: "getcol (frame_of_records ?recs) ''flight_id'' = Inr (Plain (map (\<lambda>j. Str (flight_id_of j)) [0..<?n]))"
    using key col by (simp add: getcol_def frame_of_records_def map_of_keyed)
  have d: "distinct (map (\<lambda>j. Str (flight_id_of j)) [0..<?n])"
    by (auto simp: distinct_map inj_on_def dest: flight_id_of_inj)
  have dn: "dropna (map (\<lambda>j. Str (flight_id_of j)) [0..<?n]) = map (\<lambda>j. Str (flight_id_of j)) [0..<?n]"
    by (simp add: dropna_def)
  have "nunique (Plain (map (\<lambda>j. Str (flight_id_of j)) [0..<?n])) = ?n"
    by (simp add: nunique_def dn unique_distinct [OF d])
  with g l show ?thesis
    by (simp add: script_total_flights_def load_all_def ebind_Inr total_flights_def)
qed

text \<open>
  Claim C4 as stated fails: a file none of whose rows has a date that parses still gets its
  summary record (line 81 runs for every file) and is counted.  File \<open>file_undated\<close>
  has one row, whose date does not parse: the script counts 1 flight, the claim 1 - 1 = 0.
\<close>

theorem total_flights_undated_counterexample:
  "script_total_flights example_parsers [file_undated] = Inr 1
   \<and> spec_total_flights example_parsers [file_undated] = 0
   \<and> script_total_flights example_parsers [file_undated]
        \<noteq> Inr (spec_total_flights example_parsers [file_undated])"
proof -
  have a: "script_total_flights example_parsers [file_undated] = Inr 1"
    using total_flights_count [of "[file_undated]" example_parsers] by simp
  have b: "spec_total_flights example_parsers [file_undated] = 0"
    by (simp add: spec_total_flights_def date_mask_def file_undated_dates)
  from a b show ?thesis by simp
qed

text \<open>
  Claim C4, amended.  For every non-empty list of loaded files, \<open>total_flights\<close> is the
  number of files: every loaded file counts, also one whose rows were all dropped.
\<close>

theorem total_flights_is_file_count:
  "all_files \<noteq> [] \<Longrightarrow> script_total_flights P all_files = Inr (length all_files)"
  by (rule total_flights_count)

theorem total_flights_is_file_count_witness:
  "[file_A, file_undated, file_B] \<noteq> []
   \<and> script_total_flights example_parsers [file_A, file_undated, file_B] = Inr 3"
  using total_flights_is_file_count [of "[file_A, file_undated, file_B]" example_parsers] by simp


section \<open>Claims about the script as a whole\<close>

text \<open>
  Claim C9 (the code departs from it).  With no input file the three tables are empty:
  the summary table has no row and no column.  Line 110 then asks it for the column
  \<open>flight_id\<close>, which raises \<open>KeyError\<close>: the KPI calculations of lines 110 to 116 stop
  at their first statement instead of giving a count of zero and empty sums.
\<close>

theorem empty_directory_kpis_raise:
  "load_all P [] = Inr \<lparr>flight_summary = empty_frame, gps_all = empty_frame, df_all = empty_frame\<rparr>
   \<and> nrows empty_frame = 0 \<and> columns empty_frame = []
   \<and> script_total_flights P [] = Inl (KeyError ''flight_id'')
   \<and> script_kpis P [] = Inl (KeyError ''flight_id'')"
  by (simp add: frame_defs norm_defs ex_defs cong: eval_congs)








lemma charts_AB_pie:
  "snd (plot_flight_metrics True fleet_AB ''month'' metrics ''pie'') =
     Inl (ValueError ''Unsupported chart_type. Use 'line' or 'bar'.'')"
  by code_simp



section \<open>The grouping column\<close>



















subsection \<open>The hour on the clock\<close>















subsection \<open>The table after the call\<close>







end
